theory Spec2Isabelle
  imports Complex_Main "HOL-Library.AList"
begin

section \<open>JavaScript values\<close>

text \<open>
  The two edge functions and the client flow are JavaScript/TypeScript. Their data are
  JavaScript values obtained from \<^verbatim>\<open>JSON.parse\<close>. A JavaScript number is an IEEE double:
  it is modelled by its exact value when finite, and by the three special values otherwise
  (\<open>-0\<close> is identified with \<open>0\<close>, which no operation used below tells apart).
  Strings are sequences of code units below 256; every literal of the source is ASCII.
\<close>

datatype number = Finite rat | PosInfinity | NegInfinity | NaN

datatype jsval =
    Undefined
  | Null
  | Bool bool
  | Num number
  | Str string
  | Arr "jsval list"
  | Obj "(string \<times> jsval) list"

text \<open>Exceptions are values: every \<^verbatim>\<open>throw\<close> is a left injection.\<close>

datatype js_error = TypeError | SyntaxError | Error string

definition js_bind :: "js_error + 'a \<Rightarrow> ('a \<Rightarrow> js_error + 'b) \<Rightarrow> js_error + 'b" where
  "js_bind m f = (case m of Inl e \<Rightarrow> Inl e | Inr x \<Rightarrow> f x)"

text \<open>\<^verbatim>\<open>ToBoolean\<close>: what \<^verbatim>\<open>!x\<close>, \<^verbatim>\<open>&&\<close> and \<^verbatim>\<open>||\<close> test.\<close>

fun truthy :: "jsval \<Rightarrow> bool" where
  "truthy Undefined = False"
| "truthy Null = False"
| "truthy (Bool b) = b"
| "truthy (Num (Finite q)) = (q \<noteq> 0)"
| "truthy (Num NaN) = False"
| "truthy (Num _) = True"
| "truthy (Str s) = (s \<noteq> [])"
| "truthy (Arr _) = True"
| "truthy (Obj _) = True"

text \<open>
  Property read \<^verbatim>\<open>v.k\<close>. On \<^verbatim>\<open>null\<close> and \<^verbatim>\<open>undefined\<close> it throws a TypeError; on an
  object built by \<^verbatim>\<open>JSON.parse\<close> it is the own property, or \<^verbatim>\<open>undefined\<close>. On a
  primitive or an array it is \<^verbatim>\<open>undefined\<close> for every name read by this program
  (\<^verbatim>\<open>type\<close>, \<^verbatim>\<open>data\<close>, \<^verbatim>\<open>test_object\<close>, \<^verbatim>\<open>order\<close>, \<^verbatim>\<open>order_id\<close>, \<^verbatim>\<open>payment\<close>,
  \<^verbatim>\<open>payment_status\<close>, \<^verbatim>\<open>amount\<close>, \<^verbatim>\<open>contributor\<close>, \<^verbatim>\<open>contribution_id\<close>, \<^verbatim>\<open>message\<close>,
  \<^verbatim>\<open>id\<close>, \<^verbatim>\<open>payment_session_id\<close>, \<^verbatim>\<open>error\<close>): none is a built-in property.
\<close>

fun get_prop :: "jsval \<Rightarrow> string \<Rightarrow> js_error + jsval" where
  "get_prop Undefined k = Inl TypeError"
| "get_prop Null k = Inl TypeError"
| "get_prop (Obj kvs) k = Inr (case map_of kvs k of None \<Rightarrow> Undefined | Some v \<Rightarrow> v)"
| "get_prop _ k = Inr Undefined"

text \<open>Optional chaining \<^verbatim>\<open>v?.k\<close>: \<^verbatim>\<open>undefined\<close> instead of the TypeError.\<close>

fun opt_prop :: "jsval \<Rightarrow> string \<Rightarrow> jsval" where
  "opt_prop Undefined k = Undefined"
| "opt_prop Null k = Undefined"
| "opt_prop (Obj kvs) k = (case map_of kvs k of None \<Rightarrow> Undefined | Some v \<Rightarrow> v)"
| "opt_prop _ k = Undefined"

section \<open>Conversion to strings\<close>

text \<open>
  \<^verbatim>\<open>ToString\<close>, which a template literal and \<^verbatim>\<open>String(v)\<close> apply. The text of a number is the
  platform's (\<open>num_str\<close>). An array joins its elements with commas, \<^verbatim>\<open>null\<close> and
  \<^verbatim>\<open>undefined\<close> elements being empty. An object parsed from JSON is \<^verbatim>\<open>[object Object]\<close>,
  unless it has an own property \<^verbatim>\<open>toString\<close>: that is no function, the inherited
  \<^verbatim>\<open>valueOf\<close> returns the object, and the conversion throws a TypeError.
\<close>

fun js_to_string :: "(number \<Rightarrow> string) \<Rightarrow> jsval \<Rightarrow> js_error + string"
  and js_join :: "(number \<Rightarrow> string) \<Rightarrow> jsval list \<Rightarrow> js_error + string" where
  "js_to_string num_str Undefined = Inr ''undefined''"
| "js_to_string num_str Null = Inr ''null''"
| "js_to_string num_str (Bool b) = Inr (if b then ''true'' else ''false'')"
| "js_to_string num_str (Num n) = Inr (num_str n)"
| "js_to_string num_str (Str s) = Inr s"
| "js_to_string num_str (Arr xs) = js_join num_str xs"
| "js_to_string num_str (Obj kvs) =
     (if map_of kvs ''toString'' = None then Inr ''[object Object]'' else Inl TypeError)"
| "js_join num_str [] = Inr []"
| "js_join num_str (x # xs) =
     js_bind (if x = Undefined \<or> x = Null then Inr [] else js_to_string num_str x) (\<lambda>a.
       if xs = [] then Inr a
       else js_bind (js_join num_str xs) (\<lambda>b. Inr (a @ '','' @ b)))"

text \<open>
  Whether \<^verbatim>\<open>ToString\<close> throws, for the places that build a text only to log it.
\<close>

fun to_string_throws :: "jsval \<Rightarrow> bool"
  and join_throws :: "jsval list \<Rightarrow> bool" where
  "to_string_throws Undefined = False"
| "to_string_throws Null = False"
| "to_string_throws (Bool b) = False"
| "to_string_throws (Num n) = False"
| "to_string_throws (Str s) = False"
| "to_string_throws (Arr xs) = join_throws xs"
| "to_string_throws (Obj kvs) = (map_of kvs ''toString'' \<noteq> None)"
| "join_throws [] = False"
| "join_throws (x # xs) = (to_string_throws x \<or> join_throws xs)"

section \<open>Conversion to JSON\<close>

text \<open>
  \<^verbatim>\<open>JSON.stringify\<close>, given as the value that the text it writes denotes. A number that is
  not finite is written as \<^verbatim>\<open>null\<close>, as is \<^verbatim>\<open>undefined\<close> in an array; a property whose
  value is \<^verbatim>\<open>undefined\<close> is left out. Everything else is written as it is. (A property
  \<^verbatim>\<open>toJSON\<close> of a parsed object is no function and is ignored.)
\<close>

fun stringify_number :: "number \<Rightarrow> jsval" where
  "stringify_number (Finite q) = Num (Finite q)"
| "stringify_number PosInfinity = Null"
| "stringify_number NegInfinity = Null"
| "stringify_number NaN = Null"

fun stringify_value :: "jsval \<Rightarrow> jsval"
  and stringify_list :: "jsval list \<Rightarrow> jsval list"
  and stringify_props :: "(string \<times> jsval) list \<Rightarrow> (string \<times> jsval) list" where
  "stringify_value Undefined = Null"
| "stringify_value Null = Null"
| "stringify_value (Bool b) = Bool b"
| "stringify_value (Num n) = stringify_number n"
| "stringify_value (Str s) = Str s"
| "stringify_value (Arr xs) = Arr (stringify_list xs)"
| "stringify_value (Obj kvs) = Obj (stringify_props kvs)"
| "stringify_list [] = []"
| "stringify_list (x # xs) = stringify_value x # stringify_list xs"
| "stringify_props [] = []"
| "stringify_props ((k, v) # kvs) =
     (if v = Undefined then stringify_props kvs else (k, stringify_value v) # stringify_props kvs)"

text \<open>
  The values that \<^verbatim>\<open>JSON.stringify\<close> writes as they are: every number in them is finite and
  \<^verbatim>\<open>undefined\<close> does not occur.
\<close>

fun finite_json :: "jsval \<Rightarrow> bool"
  and finite_json_list :: "jsval list \<Rightarrow> bool"
  and finite_json_props :: "(string \<times> jsval) list \<Rightarrow> bool" where
  "finite_json Undefined = False"
| "finite_json Null = True"
| "finite_json (Bool b) = True"
| "finite_json (Num n) = (\<exists>q. n = Finite q)"
| "finite_json (Str s) = True"
| "finite_json (Arr xs) = finite_json_list xs"
| "finite_json (Obj kvs) = finite_json_props kvs"
| "finite_json_list [] = True"
| "finite_json_list (x # xs) = (finite_json x \<and> finite_json_list xs)"
| "finite_json_props [] = True"
| "finite_json_props ((k, v) # kvs) = (finite_json v \<and> finite_json_props kvs)"

section \<open>Numbers from digit strings\<close>

definition is_digit :: "char \<Rightarrow> bool" where
  "is_digit c = (c \<in> set ''0123456789'')"

text \<open>White space and line terminators of ECMAScript among the code units below 256.\<close>

definition is_space :: "char \<Rightarrow> bool" where
  "is_space c = (of_char c \<in> {9, 10, 11, 12, 13, 32, 160 :: nat})"

definition trim :: "string \<Rightarrow> string" where
  "trim s = rev (dropWhile is_space (rev (dropWhile is_space s)))"

definition digit_val :: "char \<Rightarrow> nat" where
  "digit_val c = of_char c - 48"

text \<open>The mathematical value of a digit string, most significant digit first.\<close>

definition dec_value :: "string \<Rightarrow> nat" where
  "dec_value ds = foldl (\<lambda>acc c. 10 * acc + digit_val c) 0 ds"

fun bit_length :: "nat \<Rightarrow> nat" where
  "bit_length n = (if n = 0 then 0 else Suc (bit_length (n div 2)))"

text \<open>
  The Number value of a natural number: the nearest double, ties to the even significand
  (53 bits), and \<open>Infinity\<close> from \<open>2 ^ 1024\<close> on.
\<close>

definition round_to_double :: "nat \<Rightarrow> number" where
  "round_to_double n =
     (if n < 2 ^ 53 then Finite (of_nat n)
      else
        let e = bit_length n - 53;
            q = n div 2 ^ e;
            r = n mod 2 ^ e;
            q' = (if 2 ^ e < 2 * r \<or> (2 * r = 2 ^ e \<and> odd q) then q + 1 else q);
            m = q' * 2 ^ e
        in if 2 ^ 1024 \<le> m then PosInfinity else Finite (of_nat m))"

text \<open>
  \<^verbatim>\<open>parseInt(s, 10)\<close>: leading white space is skipped, a sign is read, the longest run of
  digits is taken; no digit gives \<open>NaN\<close>.
\<close>

definition parseInt10 :: "string \<Rightarrow> number" where
  "parseInt10 s =
     (let t = dropWhile is_space s;
          neg = (t \<noteq> [] \<and> hd t = CHR ''-'');
          u = (if t \<noteq> [] \<and> (hd t = CHR ''-'' \<or> hd t = CHR ''+'') then tl t else t);
          ds = takeWhile is_digit u
      in if ds = [] then NaN
         else (case round_to_double (dec_value ds) of
                 Finite q \<Rightarrow> Finite (if neg then - q else q)
               | PosInfinity \<Rightarrow> (if neg then NegInfinity else PosInfinity)
               | x \<Rightarrow> x))"

section \<open>The order identifier\<close>

text \<open>
  \<^verbatim>\<open>orderId.match(/^order_(\d+)_/)\<close> on a string: \<open>None\<close> is \<^verbatim>\<open>null\<close>, \<open>Some ds\<close> is a
  match whose first group \<^verbatim>\<open>match[1]\<close> is \<open>ds\<close>. The group is greedy; as the character after
  it must be \<^verbatim>\<open>_\<close>, which is no digit, backtracking to a shorter run never succeeds.
\<close>

definition match_order :: "string \<Rightarrow> string option" where
  "match_order s =
     (if take 6 s = ''order_'' then
        let rest = drop 6 s;
            ds = takeWhile is_digit rest;
            after = dropWhile is_digit rest
        in if ds \<noteq> [] \<and> after \<noteq> [] \<and> hd after = CHR ''_'' then Some ds else None
      else None)"

text \<open>
  \<^verbatim>\<open>orderId.match(...)\<close> on a value that passed \<^verbatim>\<open>!orderId\<close>: only a string has a callable
  \<^verbatim>\<open>match\<close>; on every other value the call throws a TypeError.
\<close>

fun call_match :: "jsval \<Rightarrow> js_error + string option" where
  "call_match (Str s) = Inr (match_order s)"
| "call_match _ = Inl TypeError"

section \<open>The ledger store\<close>

text \<open>
  The table \<^verbatim>\<open>contributions\<close> of the managed store. The store is outside the repository:
  \<^verbatim>\<open>.update({ status: 'success' }).eq('id', v)\<close> is modelled as the update of every row whose
  id equals the number \<open>v\<close>, or, when the store reports an error, as no change at all.
  Whether it reports one is decided by the environment (\<open>db_fault\<close>).
\<close>

record contribution =
  c_id :: int
  c_contributor :: string
  c_amount :: rat
  c_method :: string
  c_status :: string

type_synonym ledger = "contribution list"

definition id_eq :: "number \<Rightarrow> int \<Rightarrow> bool" where
  "id_eq v i = (v = Finite (of_int i))"

definition supabase_update_status ::
  "string option \<Rightarrow> ledger \<Rightarrow> number \<Rightarrow> string option \<times> ledger" where
  "supabase_update_status db_fault tbl v =
     (case db_fault of
        Some err \<Rightarrow> (Some err, tbl)
      | None \<Rightarrow> (None, map (\<lambda>r. if id_eq v (c_id r) then r\<lparr>c_status := ''success''\<rparr> else r) tbl))"

section \<open>HTTP requests and responses\<close>

record request =
  req_method :: string
  req_body :: string

text \<open>
  A response body is a text, or a JSON text, given as the value it denotes.
  \<^verbatim>\<open>JSON.stringify(undefined)\<close> is no text, and the body is empty.
\<close>

datatype body = Text string | Json jsval

definition json_body :: "jsval \<Rightarrow> body" where
  "json_body v = (if v = Undefined then Text [] else Json (stringify_value v))"

record response =
  resp_status :: nat
  resp_headers :: "(string \<times> string) list"
  resp_body :: body

section \<open>The payment webhook handler\<close>

definition corsHeaders :: "(string \<times> string) list" where
  "corsHeaders =
     [(''Access-Control-Allow-Origin'', ''*''),
      (''Access-Control-Allow-Methods'', ''POST, OPTIONS''),
      (''Access-Control-Allow-Headers'', ''Content-Type, Authorization'')]"

text \<open>\<^verbatim>\<open>new Response(text, { status: 200, headers: corsHeaders })\<close>.\<close>

definition ack_text :: "string \<Rightarrow> response" where
  "ack_text t = \<lparr>resp_status = 200, resp_headers = corsHeaders, resp_body = Text t\<rparr>"

text \<open>
  What one delivery does: the response, or the exception that escapes the handler
  (nothing catches it), the ledger afterwards, and the store updates it attempted.
\<close>

record webhook_result =
  wh_outcome :: "js_error + response"
  wh_ledger :: ledger
  wh_updates :: "number list"

definition wh_return :: "ledger \<Rightarrow> response \<Rightarrow> webhook_result" where
  "wh_return tbl r = \<lparr>wh_outcome = Inr r, wh_ledger = tbl, wh_updates = []\<rparr>"

definition wh_throw :: "ledger \<Rightarrow> js_error \<Rightarrow> webhook_result" where
  "wh_throw tbl e = \<lparr>wh_outcome = Inl e, wh_ledger = tbl, wh_updates = []\<rparr>"

text \<open>\<^verbatim>\<open>payload.type === 'WEBHOOK' && payload.data?.test_object\<close>, as a condition.\<close>

definition is_test_webhook :: "jsval \<Rightarrow> js_error + bool" where
  "is_test_webhook payload =
     js_bind (get_prop payload ''type'') (\<lambda>ty.
       if ty = Str ''WEBHOOK''
       then js_bind (get_prop payload ''data'') (\<lambda>d. Inr (truthy (opt_prop d ''test_object'')))
       else Inr False)"

text \<open>\<^verbatim>\<open>payload.data?.order?.order_id\<close> and \<^verbatim>\<open>payload.data?.payment?.payment_status\<close>.\<close>

definition payload_orderId :: "jsval \<Rightarrow> js_error + jsval" where
  "payload_orderId payload =
     js_bind (get_prop payload ''data'') (\<lambda>d. Inr (opt_prop (opt_prop d ''order'') ''order_id''))"

definition payload_paymentStatus :: "jsval \<Rightarrow> js_error + jsval" where
  "payload_paymentStatus payload =
     js_bind (get_prop payload ''data'')
       (\<lambda>d. Inr (opt_prop (opt_prop d ''payment'') ''payment_status''))"

text \<open>
  The handler from the parsed payload on (source lines 29 to 75). Of the logging only line 49
  has an effect on the outcome: its template literal converts \<^verbatim>\<open>paymentStatus\<close> and
  \<^verbatim>\<open>orderId\<close> to strings, which throws a TypeError on an object with an own \<^verbatim>\<open>toString\<close>.
\<close>

definition webhook_payload :: "string option \<Rightarrow> ledger \<Rightarrow> jsval \<Rightarrow> webhook_result" where
  "webhook_payload db_fault tbl payload =
     (case is_test_webhook payload of
        Inl e \<Rightarrow> wh_throw tbl e
      | Inr True \<Rightarrow>
          wh_return tbl
            \<lparr>resp_status = 200,
             resp_headers = AList.update ''Content-Type'' ''application/json'' corsHeaders,
             resp_body = json_body (Obj [(''status'', Str ''acknowledged'')])\<rparr>
      | Inr False \<Rightarrow>
         (case payload_orderId payload of
            Inl e \<Rightarrow> wh_throw tbl e
          | Inr orderId \<Rightarrow>
             (case payload_paymentStatus payload of
                Inl e \<Rightarrow> wh_throw tbl e
              | Inr paymentStatus \<Rightarrow>
                  if \<not> truthy orderId \<or> \<not> truthy paymentStatus
                  then wh_return tbl (ack_text ''Invalid webhook structure'')
                  else if to_string_throws paymentStatus \<or> to_string_throws orderId
                  then wh_throw tbl TypeError
                  else
                   (case call_match orderId of
                      Inl e \<Rightarrow> wh_throw tbl e
                    | Inr None \<Rightarrow> wh_return tbl (ack_text ''Invalid order_id format'')
                    | Inr (Some m1) \<Rightarrow>
                        let contributionId = parseInt10 m1 in
                        if paymentStatus = Str ''SUCCESS'' then
                          (case supabase_update_status db_fault tbl contributionId of
                             (Some err, tbl') \<Rightarrow>
                               \<lparr>wh_outcome = Inr (ack_text ''Database update failed''),
                                wh_ledger = tbl', wh_updates = [contributionId]\<rparr>
                           | (None, tbl') \<Rightarrow>
                               \<lparr>wh_outcome = Inr (ack_text ''Webhook processed''),
                                wh_ledger = tbl', wh_updates = [contributionId]\<rparr>)
                        else wh_return tbl (ack_text ''Webhook processed'')))))"

text \<open>
  The whole handler. \<open>parse\<close> is the platform's \<^verbatim>\<open>JSON.parse\<close>: \<open>None\<close> when it throws.
\<close>

definition webhook ::
  "(string \<Rightarrow> jsval option) \<Rightarrow> string option \<Rightarrow> ledger \<Rightarrow> request \<Rightarrow> webhook_result" where
  "webhook parse db_fault tbl req =
     (if req_method req = ''OPTIONS''
      then wh_return tbl \<lparr>resp_status = 200, resp_headers = corsHeaders, resp_body = Text ''ok''\<rparr>
      else
        (case parse (req_body req) of
           None \<Rightarrow> wh_return tbl (ack_text ''Invalid JSON'')
         | Some payload \<Rightarrow> webhook_payload db_fault tbl payload))"

section \<open>The order request handler\<close>

text \<open>
  A request to the gateway; \<open>gw_body\<close> is the JSON text sent, given as the value it denotes.
\<close>

record gateway_request =
  gw_url :: string
  gw_method :: string
  gw_headers :: "(string \<times> string) list"
  gw_body :: jsval

text \<open>What \<^verbatim>\<open>fetch\<close> gives: it throws, or there is a response with a status and a body text.\<close>

datatype fetch_result = FetchThrows js_error | FetchResponse nat string

text \<open>
  What the handler takes from its platform. \<open>cors\<close> stands for \<^verbatim>\<open>corsHeaders\<close> of
  \<^verbatim>\<open>../_shared/cors.ts\<close>, a constant whose file is not part of the sources at hand.
\<close>

record platform =
  JSON_parse :: "string \<Rightarrow> jsval option"
  Number_toString :: "number \<Rightarrow> string"
  env_get :: "string \<Rightarrow> string option"
  Date_now :: number
  fetch :: "gateway_request \<Rightarrow> fetch_result"
  cors :: "(string \<times> string) list"

definition jsonResponse :: "(string \<times> string) list \<Rightarrow> jsval \<Rightarrow> nat \<Rightarrow> response" where
  "jsonResponse hs data st =
     \<lparr>resp_status = st,
      resp_headers = AList.update ''Content-Type'' ''application/json'' hs,
      resp_body = json_body data\<rparr>"

definition error_body :: "string \<Rightarrow> jsval" where
  "error_body msg = Obj [(''error'', Str msg)]"

text \<open>\<^verbatim>\<open>!v\<close> for the value of \<^verbatim>\<open>Deno.env.get\<close>: unset, or the empty string.\<close>

definition env_falsy :: "string option \<Rightarrow> bool" where
  "env_falsy v = (case v of None \<Rightarrow> True | Some s \<Rightarrow> s = [])"

text \<open>\<^verbatim>\<open>n <= 0\<close> on numbers: false on \<open>NaN\<close>.\<close>

fun le_zero :: "number \<Rightarrow> bool" where
  "le_zero (Finite q) = (q \<le> 0)"
| "le_zero NegInfinity = True"
| "le_zero PosInfinity = False"
| "le_zero NaN = False"

text \<open>\<^verbatim>\<open>typeof amount !== 'number' || amount <= 0\<close>.\<close>

fun invalid_amount :: "jsval \<Rightarrow> bool" where
  "invalid_amount (Num n) = le_zero n"
| "invalid_amount _ = True"

text \<open>\<^verbatim>\<open>typeof v !== 'string' || v.trim() === ''\<close>.\<close>

fun invalid_string :: "jsval \<Rightarrow> bool" where
  "invalid_string (Str s) = (trim s = [])"
| "invalid_string _ = True"

fun str_of :: "jsval \<Rightarrow> string" where
  "str_of (Str s) = s"
| "str_of _ = []"

text \<open>Fetch's \<^verbatim>\<open>response.ok\<close>.\<close>

definition response_ok :: "nat \<Rightarrow> bool" where
  "response_ok st = (200 \<le> st \<and> st \<le> 299)"

definition make_order_id :: "string \<Rightarrow> string \<Rightarrow> string" where
  "make_order_id contribution_id now = ''order_'' @ contribution_id @ ''_'' @ now"

definition order_request ::
  "platform \<Rightarrow> string \<Rightarrow> string \<Rightarrow> string \<Rightarrow> string
     \<Rightarrow> jsval \<Rightarrow> jsval \<Rightarrow> jsval \<Rightarrow> gateway_request" where
  "order_request p appId secretKey cashfreeApiUrl appUrl amount contributor contribution_id =
     \<lparr>gw_url = cashfreeApiUrl,
      gw_method = ''POST'',
      gw_headers =
        [(''Content-Type'', ''application/json''),
         (''x-client-id'', appId),
         (''x-client-secret'', secretKey),
         (''x-api-version'', ''2022-09-01'')],
      gw_body =
        stringify_value
         (Obj [(''order_id'',
                Str (make_order_id (str_of contribution_id) (Number_toString p (Date_now p)))),
             (''order_amount'', amount),
             (''order_currency'', Str ''INR''),
             (''customer_details'',
                Obj [(''customer_id'', Str (''user_'' @ str_of contribution_id)),
                     (''customer_name'', contributor),
                     (''customer_phone'', Str ''9999999999'')]),
             (''order_meta'',
                Obj [(''return_url'',
                        Str (appUrl @ ''/payment-status?order_id={order_id}''))])])\<rparr>"

text \<open>
  The error message of the gateway branch:
  \<^verbatim>\<open>responseData.message || `Cashfree API returned status ${apiResponse.status}`\<close>, then its
  text inside \<^verbatim>\<open>`Payment gateway error: ${errorMessage}`\<close>.
\<close>

definition gateway_error_message :: "platform \<Rightarrow> jsval \<Rightarrow> nat \<Rightarrow> js_error + string" where
  "gateway_error_message p responseData st =
     js_bind (get_prop responseData ''message'') (\<lambda>m.
       js_bind
         (js_to_string (Number_toString p)
            (if truthy m then m
             else Str (''Cashfree API returned status '' @ Number_toString p (Finite (of_nat st)))))
         (\<lambda>errorMessage. Inr (''Payment gateway error: '' @ errorMessage)))"

text \<open>The error messages of the handler, as the source writes them.\<close>

definition err_config :: string where
  "err_config = ''Server configuration error.''"

definition err_json :: string where
  "err_json = ''Invalid JSON in request body.''"

definition err_amount :: string where
  \<open>err_amount = ''Invalid or missing "amount". It must be a positive number.''\<close>

definition err_contributor :: string where
  \<open>err_contributor = ''Invalid or missing "contributor". It must be a non-empty string.''\<close>

definition err_contribution_id :: string where
  \<open>err_contribution_id =
     ''Invalid or missing "contribution_id". It must be a non-empty string.''\<close>

definition err_internal :: string where
  "err_internal = ''An unexpected internal server error occurred.''"

text \<open>
  The body of the \<^verbatim>\<open>try\<close> block (source lines 19 to 92): the response it returns or the
  exception it throws, and the requests sent to the gateway.
\<close>

definition order_try :: "platform \<Rightarrow> request \<Rightarrow> (js_error + response) \<times> gateway_request list" where
  "order_try p req =
     (let appId = env_get p ''CASHFREE_APP_ID'';
          secretKey = env_get p ''CASHFREE_SECRET_KEY'';
          cashfreeApiUrl = env_get p ''CASHFREE_API_URL'';
          appUrl = env_get p ''APP_URL''
      in
      if env_falsy appId \<or> env_falsy secretKey \<or> env_falsy cashfreeApiUrl \<or> env_falsy appUrl
      then (Inr (jsonResponse (cors p) (error_body err_config) 500), [])
      else
       (case JSON_parse p (req_body req) of
          None \<Rightarrow> (Inr (jsonResponse (cors p) (error_body err_json) 400), [])
        | Some body \<Rightarrow>
           (case js_bind (get_prop body ''amount'') (\<lambda>a.
                 js_bind (get_prop body ''contributor'') (\<lambda>c.
                 js_bind (get_prop body ''contribution_id'') (\<lambda>i. Inr (a, c, i)))) of
              Inl e \<Rightarrow> (Inl e, [])
            | Inr (amount, contributor, contribution_id) \<Rightarrow>
                if invalid_amount amount then
                  (Inr (jsonResponse (cors p) (error_body err_amount) 400), [])
                else if invalid_string contributor then
                  (Inr (jsonResponse (cors p) (error_body err_contributor) 400), [])
                else if invalid_string contribution_id then
                  (Inr (jsonResponse (cors p) (error_body err_contribution_id) 400), [])
                else
                  let greq = order_request p (the appId) (the secretKey) (the cashfreeApiUrl)
                               (the appUrl) amount contributor contribution_id
                  in
                  (case fetch p greq of
                     FetchThrows e \<Rightarrow> (Inl e, [greq])
                   | FetchResponse st txt \<Rightarrow>
                      (case JSON_parse p txt of
                         None \<Rightarrow> (Inl SyntaxError, [greq])
                       | Some responseData \<Rightarrow>
                           if \<not> response_ok st then
                             (case gateway_error_message p responseData st of
                                Inl e \<Rightarrow> (Inl e, [greq])
                              | Inr msg \<Rightarrow>
                                  (Inr (jsonResponse (cors p) (error_body msg) 502), [greq]))
                           else (Inr (jsonResponse (cors p) responseData 200), [greq]))))))"

text \<open>
  The handler: the preflight answer, else the \<^verbatim>\<open>try\<close> block under the global
  \<^verbatim>\<open>catch\<close> (source lines 93 to 97).
\<close>

record order_result =
  or_response :: response
  or_calls :: "gateway_request list"

definition order_handler :: "platform \<Rightarrow> request \<Rightarrow> order_result" where
  "order_handler p req =
     (if req_method req = ''OPTIONS''
      then \<lparr>or_response = \<lparr>resp_status = 200, resp_headers = cors p, resp_body = Text ''ok''\<rparr>,
            or_calls = []\<rparr>
      else
        (case order_try p req of
           (Inl e, calls) \<Rightarrow>
             \<lparr>or_response = jsonResponse (cors p) (error_body err_internal) 500,
              or_calls = calls\<rparr>
         | (Inr r, calls) \<Rightarrow> \<lparr>or_response = r, or_calls = calls\<rparr>))"

text \<open>
  The conditions under which a request passes the checks of the handler, for the statements
  below: the four settings are present, and the three fields of the parsed body are valid.
  Only an object has a valid field, so reading the fields of a valid body does not throw.
\<close>

definition config_ok :: "platform \<Rightarrow> bool" where
  "config_ok p =
     (\<not> env_falsy (env_get p ''CASHFREE_APP_ID'') \<and> \<not> env_falsy (env_get p ''CASHFREE_SECRET_KEY'')
      \<and> \<not> env_falsy (env_get p ''CASHFREE_API_URL'') \<and> \<not> env_falsy (env_get p ''APP_URL''))"

definition valid_body :: "jsval \<Rightarrow> bool" where
  "valid_body body =
     (\<not> invalid_amount (opt_prop body ''amount'')
      \<and> \<not> invalid_string (opt_prop body ''contributor'')
      \<and> \<not> invalid_string (opt_prop body ''contribution_id''))"

text \<open>The request the handler sends to the gateway for a valid body.\<close>

definition gateway_call :: "platform \<Rightarrow> jsval \<Rightarrow> gateway_request" where
  "gateway_call p body =
     order_request p (the (env_get p ''CASHFREE_APP_ID'')) (the (env_get p ''CASHFREE_SECRET_KEY''))
       (the (env_get p ''CASHFREE_API_URL'')) (the (env_get p ''APP_URL''))
       (opt_prop body ''amount'') (opt_prop body ''contributor'') (opt_prop body ''contribution_id'')"

section \<open>The contribution client flow\<close>

text \<open>
  \<^verbatim>\<open>handlePayOnline\<close> of the contributions page. What it does to the outside is the sequence
  of its actions: state updates of the component, the insert into the store, the invocation
  of the order function and the hand-over to the checkout.
\<close>

datatype action =
    SetLoading bool
  | SetError "string option"
  | Insert jsval
  | Invoke jsval
  | Checkout jsval

text \<open>
  The \<^verbatim>\<open>functionError\<close> of \<^verbatim>\<open>supabase.functions.invoke\<close>: its message, and what
  \<^verbatim>\<open>functionError.context.json()\<close> gives, if there is such a function.
\<close>

record function_error =
  fe_message :: string
  fe_context_json :: "(js_error + jsval) option"

text \<open>
  The browser side: unary plus on a string, the text of a number, the message the engine
  gives its own exceptions, and the answers of the store, of the order function and of the
  checkout SDK (absent when \<open>window_Cashfree\<close> is false).
\<close>

record browser =
  String_toNumber :: "string \<Rightarrow> number"
  num_toString :: "number \<Rightarrow> string"
  engine_message :: "js_error \<Rightarrow> string"
  db_insert :: "jsval \<Rightarrow> jsval \<times> jsval"
  functions_invoke :: "jsval \<Rightarrow> jsval \<times> function_error option"
  window_Cashfree :: bool
  cashfree_checkout :: "jsval \<Rightarrow> js_error + jsval"

definition validateForm :: "browser \<Rightarrow> string \<Rightarrow> string \<Rightarrow> bool \<times> action list" where
  "validateForm b contributor amount =
     (if trim contributor = [] \<or> amount = [] \<or> String_toNumber b amount = NaN
         \<or> le_zero (String_toNumber b amount)
      then (False, [SetError None,
                    SetError (Some ''Please enter a valid name and a positive amount.'')])
      else (True, [SetError None]))"

definition pending_row :: "browser \<Rightarrow> string \<Rightarrow> string \<Rightarrow> jsval" where
  "pending_row b contributor amount =
     Obj [(''contributor'', Str (trim contributor)),
          (''amount'', Num (String_toNumber b amount)),
          (''method'', Str ''online''),
          (''status'', Str ''pending'')]"

definition invoke_body :: "browser \<Rightarrow> string \<Rightarrow> string \<Rightarrow> string \<Rightarrow> jsval" where
  "invoke_body b contributor amount contribution_id =
     Obj [(''amount'', Num (String_toNumber b amount)),
          (''contributor'', Str (trim contributor)),
          (''contribution_id'', Str contribution_id)]"

text \<open>The message thrown when the order function reports an error (source lines 309 to 324).\<close>

definition detailed_error :: "browser \<Rightarrow> function_error \<Rightarrow> js_error" where
  "detailed_error b fe =
     (case fe_context_json fe of
        None \<Rightarrow> Error ''An unknown error occurred with the payment function.''
      | Some (Inl e) \<Rightarrow> Error (fe_message fe)
      | Some (Inr errorBody) \<Rightarrow>
         (case get_prop errorBody ''error'' of
            Inl e \<Rightarrow> Error (fe_message fe)
          | Inr v \<Rightarrow>
              if truthy v then
                (case js_to_string (num_toString b) v of Inl e \<Rightarrow> e | Inr m \<Rightarrow> Error m)
              else Error (fe_message fe)))"

text \<open>
  The \<^verbatim>\<open>try\<close> block of \<^verbatim>\<open>handlePayOnline\<close>: the exception it ends with, if any, and the
  actions it took.
\<close>

definition pay_try :: "browser \<Rightarrow> string \<Rightarrow> string \<Rightarrow> js_error option \<times> action list" where
  "pay_try b contributor amount =
     (let row = pending_row b contributor amount;
          (newContribution, insertError) = db_insert b row
      in
      if truthy insertError then
        (Some (Error ''Could not save your contribution record. Please try again.''),
         [Insert row])
      else
       (case js_bind (get_prop newContribution ''id'') (js_to_string (num_toString b)) of
          Inl e \<Rightarrow> (Some e, [Insert row])
        | Inr contribution_id \<Rightarrow>
            let body = invoke_body b contributor amount contribution_id;
                (functionData, functionError) = functions_invoke b body
            in
            (case functionError of
               Some fe \<Rightarrow> (Some (detailed_error b fe), [Insert row, Invoke body])
             | None \<Rightarrow>
                 if \<not> truthy (opt_prop functionData ''payment_session_id'') then
                   (Some (Error ''Failed to get a valid payment session from the server.''),
                    [Insert row, Invoke body])
                 else if \<not> window_Cashfree b then
                   (Some (Error
                      ''Payment SDK (Cashfree) is not loaded. Please refresh the page.''),
                    [Insert row, Invoke body])
                 else
                   let arg = Obj [(''paymentSessionId'',
                                     opt_prop functionData ''payment_session_id''),
                                  (''paymentStyle'', Str ''redirect'')]
                   in
                   (case cashfree_checkout b arg of
                      Inl e \<Rightarrow> (Some e, [Insert row, Invoke body, Checkout arg])
                    | Inr result \<Rightarrow>
                        if truthy (opt_prop result ''error'') then
                          (case js_bind (get_prop (opt_prop result ''error'') ''message'')
                                  (js_to_string (num_toString b)) of
                             Inl e \<Rightarrow> (Some e, [Insert row, Invoke body, Checkout arg])
                           | Inr m \<Rightarrow>
                               (Some (Error (''Payment Gateway Error: '' @ m)),
                                [Insert row, Invoke body, Checkout arg]))
                        else (None, [Insert row, Invoke body, Checkout arg])))))"

text \<open>\<^verbatim>\<open>err.message\<close> of a caught exception.\<close>

definition error_message :: "browser \<Rightarrow> js_error \<Rightarrow> string" where
  "error_message b e = (case e of Error m \<Rightarrow> m | _ \<Rightarrow> engine_message b e)"

definition handlePayOnline :: "browser \<Rightarrow> string \<Rightarrow> string \<Rightarrow> action list" where
  "handlePayOnline b contributor amount =
     (case validateForm b contributor amount of
        (False, acts) \<Rightarrow> acts
      | (True, acts) \<Rightarrow>
          acts @ [SetLoading True, SetError None] @
          (case pay_try b contributor amount of
             (None, steps) \<Rightarrow> steps @ [SetLoading False]
           | (Some err, steps) \<Rightarrow>
               steps @
               [SetError (Some (if error_message b err = []
                                then ''An unexpected error occurred during payment initiation.''
                                else error_message b err)),
                SetLoading False]))"

section \<open>Example data\<close>

text \<open>Concrete inputs on which the theorems below are instantiated.\<close>

definition parse_as :: "jsval \<Rightarrow> string \<Rightarrow> jsval option" where
  "parse_as v t = Some v"

definition post :: "string \<Rightarrow> request" where
  "post t = \<lparr>req_method = ''POST'', req_body = t\<rparr>"

definition row42 :: contribution where
  "row42 = \<lparr>c_id = 42, c_contributor = ''Asha'', c_amount = 500,
            c_method = ''online'', c_status = ''pending''\<rparr>"

definition event :: "string \<Rightarrow> bool \<Rightarrow> jsval \<Rightarrow> jsval \<Rightarrow> jsval" where
  "event ty test order_id payment_status =
     Obj [(''type'', Str ty),
          (''data'',
             Obj ((if test then [(''test_object'', Obj [(''test_key'', Str ''test_value'')])]
                   else []) @
                  [(''order'', Obj [(''order_id'', order_id)]),
                   (''payment'', Obj [(''payment_status'', payment_status)])]))]"

text \<open>
  A platform for the order handler: the settings present or not, the parsed request body,
  the answer of \<^verbatim>\<open>fetch\<close> and the parsed body of that answer.
\<close>

definition sample_platform ::
  "bool \<Rightarrow> jsval option \<Rightarrow> fetch_result \<Rightarrow> jsval option \<Rightarrow> platform" where
  "sample_platform configured request_json answer answer_json =
     \<lparr>JSON_parse = (\<lambda>t. if t = ''request'' then request_json else answer_json),
      Number_toString = (\<lambda>n. if n = Finite 503 then ''503'' else ''1700000000000''),
      env_get = (\<lambda>k. if configured then Some (''value of '' @ k) else None),
      Date_now = Finite 1700000000000,
      fetch = (\<lambda>r. answer),
      cors = corsHeaders\<rparr>"

definition order_body :: "jsval \<Rightarrow> jsval \<Rightarrow> jsval \<Rightarrow> jsval" where
  "order_body amount contributor contribution_id =
     Obj [(''amount'', amount), (''contributor'', contributor),
          (''contribution_id'', contribution_id)]"

text \<open>
  A browser for the client flow: the answers of the store and of the order function are
  given, the checkout SDK is loaded.
\<close>

definition sample_browser ::
  "jsval \<times> jsval \<Rightarrow> jsval \<times> function_error option \<Rightarrow> browser" where
  "sample_browser inserted invoked =
     \<lparr>String_toNumber = (\<lambda>s. Finite 500),
      num_toString = (\<lambda>n. if n = Finite 42 then ''42'' else ''0''),
      engine_message = (\<lambda>e. ''TypeError''),
      db_insert = (\<lambda>r. inserted),
      functions_invoke = (\<lambda>r. invoked),
      window_Cashfree = True,
      cashfree_checkout = (\<lambda>a. Inr Undefined)\<rparr>"

definition inserted_row :: jsval where
  "inserted_row =
     Obj [(''id'', Num (Finite 42)), (''contributor'', Str ''Asha''),
          (''amount'', Num (Finite 500)), (''method'', Str ''online''),
          (''status'', Str ''pending'')]"

definition session_answer :: jsval where
  "session_answer = Obj [(''payment_session_id'', Str ''session_abc123'')]"

definition gateway_failure :: function_error where
  "gateway_failure =
     \<lparr>fe_message = ''Edge Function returned a non-2xx status code'',
      fe_context_json = Some (Inr (Obj [(''error'', Str ''Payment gateway error: down'')]))\<rparr>"

section \<open>Facts about strings and numbers\<close>

lemma underscore_not_digit: "\<not> is_digit CHR ''_''"
  by (simp add: is_digit_def)

lemma digit_not_space: "is_digit c \<Longrightarrow> \<not> is_space c"
  by (auto simp: is_digit_def is_space_def)

lemma digit_not_sign: "is_digit c \<Longrightarrow> c \<noteq> CHR ''-'' \<and> c \<noteq> CHR ''+''"
  by (auto simp: is_digit_def)

text \<open>
  The matcher agrees with the regular expression read as a language: a string matches
  with group \<open>ds\<close> exactly when it is \<^verbatim>\<open>order_\<close>, the non-empty digit run \<open>ds\<close>, an
  underscore, and anything.
\<close>

lemma match_order_make:
  assumes "ds \<noteq> []" "\<forall>c \<in> set ds. is_digit c"
  shows "match_order (''order_'' @ ds @ CHR ''_'' # rest) = Some ds"
proof -
  have t: "takeWhile is_digit (ds @ CHR ''_'' # rest) = ds"
    using assms(2) underscore_not_digit by (simp add: takeWhile_tail)
  have d: "dropWhile is_digit (ds @ CHR ''_'' # rest) = CHR ''_'' # rest"
    using assms(2) underscore_not_digit by (simp add: dropWhile_append3)
  show ?thesis using assms(1) underscore_not_digit by (simp add: match_order_def t d)
qed

lemma match_order_SomeD:
  assumes "match_order s = Some ds"
  shows "ds \<noteq> [] \<and> (\<forall>c \<in> set ds. is_digit c) \<and> (\<exists>rest. s = ''order_'' @ ds @ CHR ''_'' # rest)"
proof -
  from assms have p: "take 6 s = ''order_''"
    and ds: "ds = takeWhile is_digit (drop 6 s)"
    and ne: "ds \<noteq> []"
    and a: "dropWhile is_digit (drop 6 s) \<noteq> []" "hd (dropWhile is_digit (drop 6 s)) = CHR ''_''"
    by (auto simp: match_order_def Let_def split: if_splits)
  from a obtain rest where r: "dropWhile is_digit (drop 6 s) = CHR ''_'' # rest"
    by (cases "dropWhile is_digit (drop 6 s)") auto
  have "s = take 6 s @ drop 6 s" by simp
  also have "drop 6 s = takeWhile is_digit (drop 6 s) @ dropWhile is_digit (drop 6 s)" by simp
  finally have "s = ''order_'' @ ds @ CHR ''_'' # rest" using p ds r by simp
  moreover have "\<forall>c \<in> set ds. is_digit c" using ds by (auto dest: set_takeWhileD)
  ultimately show ?thesis using ne by blast
qed

lemma match_order_iff:
  "match_order s = Some ds \<longleftrightarrow>
     ds \<noteq> [] \<and> (\<forall>c \<in> set ds. is_digit c) \<and> (\<exists>rest. s = ''order_'' @ ds @ CHR ''_'' # rest)"
  using match_order_SomeD match_order_make by blast

lemma round_to_double_exact: "n \<le> 2 ^ 53 \<Longrightarrow> round_to_double n = Finite (of_nat n)"
proof (cases "n < 2 ^ 53")
  case True
  then show ?thesis by (simp add: round_to_double_def)
next
  case False
  assume "n \<le> 2 ^ 53"
  with False have n: "n = 9007199254740992" by simp
  have b: "bit_length 9007199254740992 = 54" by simp
  show ?thesis unfolding n round_to_double_def b Let_def by simp
qed

lemma round_to_double_cases:
  "round_to_double n = PosInfinity \<or> (\<exists>q. round_to_double n = Finite q)"
  unfolding round_to_double_def Let_def by (simp only: split: if_split) blast

lemma parseInt10_digits:
  assumes "ds \<noteq> []" "\<forall>c \<in> set ds. is_digit c"
  shows "parseInt10 ds = round_to_double (dec_value ds)"
proof -
  obtain c cs where ds: "ds = c # cs" using assms(1) by (cases ds) auto
  have c: "is_digit c" using assms(2) ds by simp
  have 1: "dropWhile is_space ds = ds" using c ds digit_not_space by simp
  have 2: "takeWhile is_digit ds = ds" using assms(2) by simp
  have 3: "hd ds \<noteq> CHR ''-''" "hd ds \<noteq> CHR ''+''" using digit_not_sign [OF c] ds by simp_all
  have "parseInt10 ds = (case round_to_double (dec_value ds) of
                 Finite q \<Rightarrow> Finite q
               | PosInfinity \<Rightarrow> PosInfinity
               | x \<Rightarrow> x)"
    unfolding parseInt10_def 1 Let_def using 3 assms(1) by (simp add: 2 split: number.split)
  then show ?thesis
    using round_to_double_cases [of "dec_value ds"] by auto
qed

lemma trim_empty_iff: "trim s = [] \<longleftrightarrow> (\<forall>c \<in> set s. is_space c)"
proof (cases "dropWhile is_space s")
  case Nil
  have "trim s = []" unfolding trim_def Nil by simp
  moreover have "\<forall>c \<in> set s. is_space c" using Nil by (simp add: dropWhile_eq_Nil_conv)
  ultimately show ?thesis by simp
next
  case (Cons x xs)
  then have x: "\<not> is_space x" using hd_dropWhile [of is_space s] by simp
  have "x \<in> set s" using Cons set_dropWhileD [of x is_space s] by simp
  then have "\<not> (\<forall>c \<in> set s. is_space c)" using x by blast
  moreover have "trim s \<noteq> []" using Cons x by (auto simp: trim_def dropWhile_eq_Nil_conv)
  ultimately show ?thesis by simp
qed

lemma parseInt10_42: "parseInt10 ''42'' = Finite 42"
proof -
  have "parseInt10 ''42'' = round_to_double (dec_value ''42'')"
    by (rule parseInt10_digits) (simp_all add: is_digit_def)
  also have "dec_value ''42'' = 42" by (simp add: dec_value_def digit_val_def)
  finally show ?thesis by (simp add: round_to_double_def)
qed

lemma match_order_42: "match_order ''order_42_1700000000000'' = Some ''42''"
  using match_order_make [of "''42''" "''1700000000000''"] by (simp add: is_digit_def)

section \<open>Facts about JSON texts\<close>

text \<open>\<^verbatim>\<open>JSON.stringify\<close> writes a value of finite numbers as it is, and keeps a string property.\<close>

lemma stringify_exact:
  "finite_json v \<Longrightarrow> stringify_value v = v"
  "finite_json_list vs \<Longrightarrow> stringify_list vs = vs"
  "finite_json_props kvs \<Longrightarrow> stringify_props kvs = kvs"
  by (induction v and vs and kvs rule: stringify_value_stringify_list_stringify_props.induct) auto

lemma stringify_props_string:
  "map_of kvs k = Some (Str t) \<Longrightarrow> map_of (stringify_props kvs) k = Some (Str t)"
  by (induction kvs) (auto split: if_splits)

lemma stringify_string_prop:
  assumes "opt_prop v k = Str t"
  shows "opt_prop (stringify_value v) k = Str t"
proof (cases v)
  case (Obj kvs)
  then have "map_of kvs k = Some (Str t)" using assms by (auto split: option.splits)
  then show ?thesis using Obj by (simp add: stringify_props_string)
qed (use assms in simp_all)

lemma jsonResponse_error:
  "jsonResponse hs (error_body m) st =
     \<lparr>resp_status = st,
      resp_headers = AList.update ''Content-Type'' ''application/json'' hs,
      resp_body = Json (Obj [(''error'', Str m)])\<rparr>"
  by (simp add: jsonResponse_def error_body_def json_body_def)

lemma cors_json: 
  "AList.update ''Content-Type'' ''application/json'' corsHeaders
     = corsHeaders @ [(''Content-Type'', ''application/json'')]"
  by (simp add: corsHeaders_def)

section \<open>Facts about the webhook handler\<close>

lemma payload_orderId_InrD:
  assumes "payload_orderId payload = Inr v"
  shows "payload \<noteq> Null \<and> payload \<noteq> Undefined"
  using assms by (cases payload) (auto simp: payload_orderId_def js_bind_def)

lemma is_test_webhook_total:
  assumes "payload \<noteq> Null" "payload \<noteq> Undefined"
  shows "\<exists>b. is_test_webhook payload = Inr b"
  using assms by (cases payload) (auto simp: is_test_webhook_def js_bind_def)

lemma payload_paymentStatus_total:
  assumes "payload \<noteq> Null" "payload \<noteq> Undefined"
  shows "\<exists>v. payload_paymentStatus payload = Inr v"
  using assms by (cases payload) (auto simp: payload_paymentStatus_def js_bind_def)

lemma payload_orderId_total:
  assumes "payload \<noteq> Null" "payload \<noteq> Undefined"
  shows "payload_orderId payload
           = Inr (opt_prop (opt_prop (opt_prop payload ''data'') ''order'') ''order_id'')"
  using assms by (cases payload) (auto simp: payload_orderId_def js_bind_def)

lemma payload_paymentStatus_value:
  assumes "payload \<noteq> Null" "payload \<noteq> Undefined"
  shows "payload_paymentStatus payload
           = Inr (opt_prop (opt_prop (opt_prop payload ''data'') ''payment'') ''payment_status'')"
  using assms by (cases payload) (auto simp: payload_paymentStatus_def js_bind_def)

lemma call_match_SomeD:
  assumes "call_match v = Inr (Some ds)"
  shows "\<exists>s. v = Str s \<and> match_order s = Some ds"
  using assms by (cases v) simp_all

text \<open>
  \<open>to_string_throws\<close> is \<^verbatim>\<open>ToString\<close> throwing, whatever the text of numbers is; what is
  thrown is a TypeError.
\<close>

lemma js_to_string_throws:
  "(\<exists>e. js_to_string f v = Inl e) = to_string_throws v"
  "(\<exists>e. js_join f vs = Inl e) = join_throws vs"
  by (induction f v and f vs rule: js_to_string_js_join.induct)
    (auto simp: js_bind_def split: sum.splits if_splits)

lemma js_to_string_error:
  "js_to_string f v = Inl e \<Longrightarrow> e = TypeError"
  "js_join f vs = Inl e \<Longrightarrow> e = TypeError"
  by (induction f v and f vs arbitrary: e and e rule: js_to_string_js_join.induct)
    (auto simp: js_bind_def split: sum.splits if_splits)

text \<open>
  The outcome of the handler on a payload that is not \<^verbatim>\<open>null\<close> and whose order id is no
  string that matches.
\<close>

lemma webhook_payload_outcome:
  assumes b: "is_test_webhook payload = Inr b"
    and oid: "payload_orderId payload = Inr oid"
    and ps: "payload_paymentStatus payload = Inr ps"
    and nomatch: "\<forall>s. oid = Str s \<longrightarrow> match_order s = None"
  shows "webhook_payload db_fault tbl payload =
     \<lparr>wh_outcome =
        (if b then
           Inr \<lparr>resp_status = 200,
                resp_headers = corsHeaders @ [(''Content-Type'', ''application/json'')],
                resp_body = Json (Obj [(''status'', Str ''acknowledged'')])\<rparr>
         else if \<not> truthy oid \<or> \<not> truthy ps then
           Inr \<lparr>resp_status = 200, resp_headers = corsHeaders,
                resp_body = Text ''Invalid webhook structure''\<rparr>
         else if to_string_throws ps \<or> to_string_throws oid \<or> (\<forall>s. oid \<noteq> Str s) then
           Inl TypeError
         else
           Inr \<lparr>resp_status = 200, resp_headers = corsHeaders,
                resp_body = Text ''Invalid order_id format''\<rparr>),
      wh_ledger = tbl, wh_updates = []\<rparr>"
proof (cases b)
  case True
  then show ?thesis
    by (simp add: webhook_payload_def b wh_return_def json_body_def corsHeaders_def)
next
  case False
  show ?thesis
  proof (cases oid)
    case (Str s)
    then have "match_order s = None" using nomatch by simp
    then show ?thesis using False Str
      by (simp add: webhook_payload_def b oid ps wh_return_def wh_throw_def ack_text_def)
  qed (use False in \<open>simp_all add: webhook_payload_def b oid ps wh_return_def wh_throw_def
        ack_text_def\<close>)
qed

text \<open>Without a matching order id nothing is written, also when the handler throws.\<close>

lemma webhook_payload_unchanged:
  assumes "\<forall>s. payload_orderId payload = Inr (Str s) \<longrightarrow> match_order s = None"
  shows "wh_ledger (webhook_payload db_fault tbl payload) = tbl
         \<and> wh_updates (webhook_payload db_fault tbl payload) = []"
proof (cases "payload = Null \<or> payload = Undefined")
  case True
  then show ?thesis
    by (auto simp: webhook_payload_def is_test_webhook_def js_bind_def wh_throw_def)
next
  case False
  then have nn: "payload \<noteq> Null" "payload \<noteq> Undefined" by simp_all
  obtain b where b: "is_test_webhook payload = Inr b" using is_test_webhook_total [OF nn] by blast
  obtain ps where ps: "payload_paymentStatus payload = Inr ps"
    using payload_paymentStatus_total [OF nn] by blast
  obtain oid where oid: "payload_orderId payload = Inr oid"
    using payload_orderId_total [OF nn] by blast
  have "\<forall>s. oid = Str s \<longrightarrow> match_order s = None" using assms oid by simp
  then show ?thesis by (simp add: webhook_payload_outcome [OF b oid ps])
qed

lemma webhook_payload_no_match:
  assumes oid: "payload_orderId payload = Inr (Str s)" and nomatch: "match_order s = None"
  shows "wh_ledger (webhook_payload db_fault tbl payload) = tbl"
    and "wh_updates (webhook_payload db_fault tbl payload) = []"
  using webhook_payload_unchanged [of payload db_fault tbl] oid nomatch by simp_all

text \<open>Every response the handler returns has status 200.\<close>

lemma webhook_payload_status:
  assumes "wh_outcome (webhook_payload db_fault tbl payload) = Inr r"
  shows "resp_status r = 200"
  using assms
  by (auto simp: webhook_payload_def wh_return_def wh_throw_def ack_text_def Let_def
        split: sum.splits bool.splits if_splits option.splits prod.splits)

lemma webhook_status:
  assumes "wh_outcome (webhook parse db_fault tbl req) = Inr r"
  shows "resp_status r = 200"
  using assms webhook_payload_status
  by (auto simp: webhook_def wh_return_def ack_text_def split: if_splits option.splits)

text \<open>
  The handler throws exactly on a payload that is \<^verbatim>\<open>null\<close>, and, past the test and the
  presence check, on a payment status or an order id that does not convert to a string and
  on an order id that is no string.
\<close>

lemma webhook_payload_throws_iff:
  "(\<exists>e. wh_outcome (webhook_payload db_fault tbl payload) = Inl e) \<longleftrightarrow>
     payload = Null \<or> payload = Undefined
     \<or> (is_test_webhook payload = Inr False
         \<and> (\<exists>oid ps. payload_orderId payload = Inr oid \<and> payload_paymentStatus payload = Inr ps
               \<and> truthy oid \<and> truthy ps
               \<and> (to_string_throws ps \<or> to_string_throws oid \<or> (\<forall>s. oid \<noteq> Str s))))"
proof (cases "payload = Null \<or> payload = Undefined")
  case True
  then show ?thesis
    by (auto simp: webhook_payload_def is_test_webhook_def js_bind_def wh_throw_def)
next
  case False
  then have nn: "payload \<noteq> Null" "payload \<noteq> Undefined" by simp_all
  obtain b where b: "is_test_webhook payload = Inr b" using is_test_webhook_total [OF nn] by blast
  obtain ps where ps: "payload_paymentStatus payload = Inr ps"
    using payload_paymentStatus_total [OF nn] by blast
  obtain oid where oid: "payload_orderId payload = Inr oid"
    using payload_orderId_total [OF nn] by blast
  show ?thesis
  proof (cases b)
    case True
    then show ?thesis using nn by (simp add: webhook_payload_def b wh_return_def)
  next
    case False
    show ?thesis
    proof (cases "truthy oid \<and> truthy ps")
      case False
      then show ?thesis using nn \<open>\<not> b\<close>
        by (auto simp: webhook_payload_def b oid ps wh_return_def)
    next
      case True
      then show ?thesis using nn \<open>\<not> b\<close>
        by (cases oid)
          (auto simp: webhook_payload_def b oid ps wh_return_def wh_throw_def Let_def
             split: option.splits prod.splits)
    qed
  qed
qed

text \<open>A success notification that is no test event reaches the store update.\<close>

lemma webhook_payload_success:
  assumes "is_test_webhook payload = Inr False"
    and "payload_orderId payload = Inr (Str s)"
    and "match_order s = Some ds"
    and "payload_paymentStatus payload = Inr (Str ''SUCCESS'')"
  shows "webhook_payload db_fault tbl payload =
           (case supabase_update_status db_fault tbl (parseInt10 ds) of
              (Some err, tbl') \<Rightarrow>
                \<lparr>wh_outcome = Inr (ack_text ''Database update failed''),
                 wh_ledger = tbl', wh_updates = [parseInt10 ds]\<rparr>
            | (None, tbl') \<Rightarrow>
                \<lparr>wh_outcome = Inr (ack_text ''Webhook processed''),
                 wh_ledger = tbl', wh_updates = [parseInt10 ds]\<rparr>)"
proof -
  have "s \<noteq> []" using assms(3) by (auto simp: match_order_def)
  then show ?thesis using assms by (simp add: webhook_payload_def Let_def)
qed

lemma event_fields:
  "payload_orderId (event ty test oid ps) = Inr oid"
  "payload_paymentStatus (event ty test oid ps) = Inr ps"
  "is_test_webhook (event ty test oid ps) = Inr (ty = ''WEBHOOK'' \<and> test)"
  by (simp_all add: event_def payload_orderId_def payload_paymentStatus_def
        is_test_webhook_def js_bind_def)

section \<open>Correlation through the order identifier\<close>

lemma order_request_order_id:
  "opt_prop (gw_body (order_request p appId secretKey url appUrl amount contributor cid))
     ''order_id'' = Str (make_order_id (str_of cid) (Number_toString p (Date_now p)))"
  by (simp add: order_request_def)

text \<open>
  Claim C3, as stated, for every contribution id made of digits only: the order identifier
  \<^verbatim>\<open>order_<contribution_id>_<t>\<close> is parsed back to a number equal to the contribution id.
  It fails on the id \<^verbatim>\<open>9007199254740993\<close>, that is \<open>2 ^ 53 + 1\<close>: the pattern captures all
  its digits, but \<^verbatim>\<open>parseInt\<close> returns a double, here \<open>9007199254740992\<close>, so the filter
  \<^verbatim>\<open>.eq('id', contributionId)\<close> selects the row before it.
\<close>

theorem order_id_round_trip_counterexample:
  "list_all is_digit ''9007199254740993''
   \<and> match_order (make_order_id ''9007199254740993'' ''1700000000000'')
       = Some ''9007199254740993''
   \<and> dec_value ''9007199254740993'' = 9007199254740993
   \<and> parseInt10 ''9007199254740993'' = Finite 9007199254740992
   \<and> \<not> id_eq (parseInt10 ''9007199254740993'') 9007199254740993
   \<and> id_eq (parseInt10 ''9007199254740993'') 9007199254740992"
proof -
  have d: "list_all is_digit ''9007199254740993''" by (simp add: is_digit_def)
  then have d': "\<forall>c \<in> set ''9007199254740993''. is_digit c" by (simp add: list_all_iff)
  have m: "match_order (make_order_id ''9007199254740993'' ''1700000000000'')
             = Some ''9007199254740993''"
    unfolding make_order_id_def using match_order_make [OF _ d', of "''1700000000000''"] by simp
  have v: "dec_value ''9007199254740993'' = 9007199254740993"
    by (simp add: dec_value_def digit_val_def)
  have b: "bit_length 9007199254740993 = 54" by simp
  have r: "round_to_double 9007199254740993 = Finite 9007199254740992"
    unfolding round_to_double_def b Let_def by simp
  have n: "parseInt10 ''9007199254740993'' = Finite 9007199254740992"
    using parseInt10_digits [OF _ d'] v r by simp
  show ?thesis using d m v n by (simp add: id_eq_def)
qed

text \<open>
  Claim C3, amended: for every non-empty contribution id made of digits only whose value is
  at most \<open>2 ^ 53\<close>, and every timestamp text \<open>t\<close>, the webhook's pattern matches the
  order identifier \<^verbatim>\<open>order_<contribution_id>_<t>\<close> with the contribution id as its group,
  \<^verbatim>\<open>parseInt\<close> of the group is the value of the contribution id, and the store filter
  selects exactly the row with that id.
\<close>

theorem order_id_round_trip:
  assumes "cid \<noteq> []" and "\<forall>c \<in> set cid. is_digit c" and "dec_value cid \<le> 2 ^ 53"
  shows "call_match (Str (make_order_id cid t)) = Inr (Some cid)
         \<and> parseInt10 cid = Finite (of_nat (dec_value cid))
         \<and> (id_eq (parseInt10 cid) i \<longleftrightarrow> i = int (dec_value cid))"
proof -
  have m: "\<And>t. match_order (make_order_id cid t) = Some cid"
    using match_order_make [OF assms(1,2)] by (simp add: make_order_id_def)
  have n: "parseInt10 cid = Finite (of_nat (dec_value cid))"
    using parseInt10_digits [OF assms(1,2)] round_to_double_exact [OF assms(3)] by simp
  have "id_eq (parseInt10 cid) i \<longleftrightarrow> i = int (dec_value cid)"
    unfolding n id_eq_def by (metis number.inject of_int_eq_iff of_int_of_nat_eq)
  then show ?thesis using m n by simp
qed

theorem order_id_round_trip_witness:
  "''42'' \<noteq> [] \<and> list_all is_digit ''42'' \<and> dec_value ''42'' \<le> 2 ^ 53
   \<and> call_match (Str (make_order_id ''42'' ''1700000000000'')) = Inr (Some ''42'')
   \<and> parseInt10 ''42'' = Finite 42
   \<and> id_eq (parseInt10 ''42'') 42"
proof -
  have h: "''42'' \<noteq> []" "\<forall>c \<in> set ''42''. is_digit c" "dec_value ''42'' \<le> 2 ^ 53"
    by (simp_all add: is_digit_def dec_value_def digit_val_def)
  have v: "dec_value ''42'' = 42" by (simp add: dec_value_def digit_val_def)
  show ?thesis
    using h order_id_round_trip [OF h, of "''1700000000000''" 42]
    by (simp add: v id_eq_def)
qed

section \<open>Reconciliation by the webhook\<close>

text \<open>
  Claim C1, as stated, for every payload with an order id that matches and the payment status
  \<^verbatim>\<open>SUCCESS\<close>: the row with the extracted id is set to \<^verbatim>\<open>success\<close>. It fails on a payload
  that also is a test event (\<^verbatim>\<open>type\<close> is \<^verbatim>\<open>WEBHOOK\<close> and \<^verbatim>\<open>data.test_object\<close> is set):
  \<^verbatim>\<open>{"type":"WEBHOOK","data":{"test_object":{"test_key":"test_value"},
  "order":{"order_id":"order_42_1700000000000"},"payment":{"payment_status":"SUCCESS"}}}\<close>.
  The handler acknowledges it before it reads the order, and row 42 stays \<^verbatim>\<open>pending\<close>.
\<close>

theorem webhook_success_counterexample:
  "payload_orderId (event ''WEBHOOK'' True (Str ''order_42_1700000000000'') (Str ''SUCCESS''))
     = Inr (Str ''order_42_1700000000000'')
   \<and> match_order ''order_42_1700000000000'' = Some ''42''
   \<and> payload_paymentStatus
        (event ''WEBHOOK'' True (Str ''order_42_1700000000000'') (Str ''SUCCESS''))
       = Inr (Str ''SUCCESS'')
   \<and> id_eq (parseInt10 ''42'') (c_id row42)
   \<and> c_status row42 = ''pending''
   \<and> webhook (parse_as (event ''WEBHOOK'' True (Str ''order_42_1700000000000'') (Str ''SUCCESS'')))
        None [row42] (post '''')
       = \<lparr>wh_outcome =
            Inr \<lparr>resp_status = 200,
                 resp_headers = corsHeaders @ [(''Content-Type'', ''application/json'')],
                 resp_body = Json (Obj [(''status'', Str ''acknowledged'')])\<rparr>,
          wh_ledger = [row42], wh_updates = []\<rparr>"
  by (simp add: event_fields match_order_42 parseInt10_42 id_eq_def row42_def webhook_def
        parse_as_def post_def webhook_payload_def wh_return_def corsHeaders_def json_body_def)

text \<open>
  Claim C1, amended: for every payload that is no test event, whose order id is a string
  matching the pattern and whose payment status is \<^verbatim>\<open>SUCCESS\<close>, when the store performs the
  update, the handler attempts exactly one update, for the extracted contribution id,
  answers \<^verbatim>\<open>Webhook processed\<close>, and the ledger afterwards is the old one with the status of
  every row of that id set to \<^verbatim>\<open>success\<close>. Delivering the same payload again leaves that
  ledger as it is, whether the store performs the second update or reports an error.
\<close>

theorem webhook_success_marks_row:
  assumes "req_method req \<noteq> ''OPTIONS''"
    and "parse (req_body req) = Some payload"
    and "is_test_webhook payload = Inr False"
    and "payload_orderId payload = Inr (Str s)"
    and "match_order s = Some ds"
    and "payload_paymentStatus payload = Inr (Str ''SUCCESS'')"
  shows "wh_updates (webhook parse None tbl req) = [parseInt10 ds]
    \<and> wh_outcome (webhook parse None tbl req) = Inr (ack_text ''Webhook processed'')
    \<and> wh_ledger (webhook parse None tbl req)
        = map (\<lambda>r. if id_eq (parseInt10 ds) (c_id r) then r\<lparr>c_status := ''success''\<rparr> else r) tbl
    \<and> (\<forall>r \<in> set (wh_ledger (webhook parse None tbl req)).
          id_eq (parseInt10 ds) (c_id r) \<longrightarrow> c_status r = ''success'')
    \<and> wh_ledger (webhook parse db_fault (wh_ledger (webhook parse None tbl req)) req)
        = wh_ledger (webhook parse None tbl req)"
proof -
  have w: "\<And>f t. webhook parse f t req = webhook_payload f t payload"
    using assms(1,2) by (simp add: webhook_def)
  note s = webhook_payload_success [OF assms(3-6)]
  have 1: "webhook_payload None tbl payload =
      \<lparr>wh_outcome = Inr (ack_text ''Webhook processed''),
       wh_ledger = map (\<lambda>r. if id_eq (parseInt10 ds) (c_id r) then r\<lparr>c_status := ''success''\<rparr> else r) tbl,
       wh_updates = [parseInt10 ds]\<rparr>"
    by (simp add: s supabase_update_status_def)
  have 2: "wh_ledger (webhook_payload db_fault (map (\<lambda>r. if id_eq (parseInt10 ds) (c_id r) then r\<lparr>c_status := ''success''\<rparr> else r) tbl) payload)
       = map (\<lambda>r. if id_eq (parseInt10 ds) (c_id r) then r\<lparr>c_status := ''success''\<rparr> else r) tbl"
    by (cases db_fault) (auto simp: s supabase_update_status_def)
  show ?thesis unfolding w 1 using 2 by auto
qed

theorem webhook_success_marks_row_witness:
  "req_method (post '''') \<noteq> ''OPTIONS''
   \<and> is_test_webhook (event ''PAYMENT_SUCCESS_WEBHOOK'' False (Str ''order_42_1700000000000'') (Str ''SUCCESS'')) = Inr False
   \<and> match_order ''order_42_1700000000000'' = Some ''42''
   \<and> wh_ledger (webhook (parse_as (event ''PAYMENT_SUCCESS_WEBHOOK'' False (Str ''order_42_1700000000000'') (Str ''SUCCESS''))) None [row42] (post ''''))
      = [row42\<lparr>c_status := ''success''\<rparr>]
   \<and> wh_ledger (webhook (parse_as (event ''PAYMENT_SUCCESS_WEBHOOK'' False (Str ''order_42_1700000000000'') (Str ''SUCCESS''))) (Some ''timeout'')
        (wh_ledger (webhook (parse_as (event ''PAYMENT_SUCCESS_WEBHOOK'' False (Str ''order_42_1700000000000'') (Str ''SUCCESS''))) None [row42] (post ''''))) (post ''''))
      = [row42\<lparr>c_status := ''success''\<rparr>]"
proof -
  let ?e = "event ''PAYMENT_SUCCESS_WEBHOOK'' False (Str ''order_42_1700000000000'') (Str ''SUCCESS'')"
  have h1: "req_method (post '''') \<noteq> ''OPTIONS''" by (simp add: post_def)
  have h2: "parse_as ?e (req_body (post '''')) = Some ?e" by (simp add: parse_as_def)
  have h3: "is_test_webhook ?e = Inr False" by (simp add: event_fields)
  have h4: "payload_orderId ?e = Inr (Str ''order_42_1700000000000'')" by (simp add: event_fields)
  have h6: "payload_paymentStatus ?e = Inr (Str ''SUCCESS'')" by (simp add: event_fields)
  note t = webhook_success_marks_row [where parse = "parse_as ?e" and req = "post ''''"
        and payload = ?e and tbl = "[row42]" and db_fault = "Some ''timeout''",
        OF h1 h2 h3 h4 match_order_42 h6]
  have m: "map (\<lambda>r. if id_eq (parseInt10 ''42'') (c_id r) then r\<lparr>c_status := ''success''\<rparr> else r)
             [row42] = [row42\<lparr>c_status := ''success''\<rparr>]"
    by (simp add: parseInt10_42 id_eq_def row42_def)
  from t have a: "wh_ledger (webhook (parse_as ?e) None [row42] (post ''''))
                    = [row42\<lparr>c_status := ''success''\<rparr>]"
    unfolding m by blast
  from t have "wh_ledger (webhook (parse_as ?e) (Some ''timeout'')
                  (wh_ledger (webhook (parse_as ?e) None [row42] (post ''''))) (post ''''))
                = wh_ledger (webhook (parse_as ?e) None [row42] (post ''''))"
    by blast
  then have b: "wh_ledger (webhook (parse_as ?e) (Some ''timeout'')
                  (wh_ledger (webhook (parse_as ?e) None [row42] (post ''''))) (post ''''))
                = [row42\<lparr>c_status := ''success''\<rparr>]"
    using a by (rule trans)
  show ?thesis using h1 h3 match_order_42 a b by blast
qed

text \<open>
  Claim C2: every POST request is answered with status 200. The handler does return 200
  wherever it returns (\<open>webhook_status\<close>), but three places are unguarded, and no \<^verbatim>\<open>try\<close>
  surrounds them. On the body \<^verbatim>\<open>null\<close>, well-formed JSON, \<^verbatim>\<open>payload.type\<close> throws a
  TypeError; on an order id that is a number, as in
  \<^verbatim>\<open>{"type":"PAYMENT_SUCCESS_WEBHOOK","data":{"order":{"order_id":123},
  "payment":{"payment_status":"SUCCESS"}}}\<close>, \<^verbatim>\<open>orderId.match\<close> is no function; on a payment
  status \<^verbatim>\<open>{"toString":1}\<close> the template literal of the log line throws. The exception
  leaves the handler, which returns no response of its own.
\<close>

theorem webhook_uncaught_type_error:
  "wh_outcome (webhook (parse_as Null) db_fault tbl (post ''null'')) = Inl TypeError
   \<and> wh_outcome (webhook (parse_as (event ''PAYMENT_SUCCESS_WEBHOOK'' False (Num (Finite 123)) (Str ''SUCCESS'')))
        db_fault tbl (post '''')) = Inl TypeError
   \<and> wh_outcome (webhook (parse_as (event ''PAYMENT_SUCCESS_WEBHOOK'' False (Str ''order_42_1700000000000'')
          (Obj [(''toString'', Num (Finite 1))])))
        db_fault tbl (post '''')) = Inl TypeError"
proof -
  have "wh_outcome (webhook (parse_as Null) db_fault tbl (post ''null'')) = Inl TypeError"
    by (simp add: webhook_def parse_as_def post_def webhook_payload_def is_test_webhook_def
          js_bind_def wh_throw_def)
  moreover have "wh_outcome (webhook (parse_as (event ''PAYMENT_SUCCESS_WEBHOOK'' False (Num (Finite 123)) (Str ''SUCCESS'')))
        db_fault tbl (post '''')) = Inl TypeError"
    by (simp add: webhook_def parse_as_def post_def webhook_payload_def wh_throw_def event_fields)
  moreover have "wh_outcome (webhook (parse_as (event ''PAYMENT_SUCCESS_WEBHOOK'' False (Str ''order_42_1700000000000'')
          (Obj [(''toString'', Num (Finite 1))])))
        db_fault tbl (post '''')) = Inl TypeError"
    by (simp add: webhook_def parse_as_def post_def webhook_payload_def wh_throw_def event_fields)
  ultimately show ?thesis by simp
qed

text \<open>
  Claim C4, as stated, for every payload whose order id does not match the pattern: no
  store update, status 200 and a body that signals a format error. The body fails on a
  test event with such an order id,
  \<^verbatim>\<open>{"type":"WEBHOOK","data":{"test_object":{"test_key":"test_value"},
  "order":{"order_id":"bad_format"},"payment":{"payment_status":"SUCCESS"}}}\<close>:
  the answer is the acknowledgement \<^verbatim>\<open>{"status":"acknowledged"}\<close>.
\<close>

theorem webhook_bad_order_id_counterexample:
  "payload_orderId (event ''WEBHOOK'' True (Str ''bad_format'') (Str ''SUCCESS'')) = Inr (Str ''bad_format'')
   \<and> match_order ''bad_format'' = None
   \<and> webhook (parse_as (event ''WEBHOOK'' True (Str ''bad_format'') (Str ''SUCCESS''))) None [row42] (post '''')
       = \<lparr>wh_outcome =
            Inr \<lparr>resp_status = 200,
                 resp_headers = corsHeaders @ [(''Content-Type'', ''application/json'')],
                 resp_body = Json (Obj [(''status'', Str ''acknowledged'')])\<rparr>,
          wh_ledger = [row42], wh_updates = []\<rparr>"
  by (simp add: event_fields match_order_def webhook_def
        parse_as_def post_def webhook_payload_def wh_return_def corsHeaders_def json_body_def)

text \<open>
  Claim C4, amended: for every payload whose order id is no string that matches the pattern
  (it is missing, no string, or a string without a match), the handler attempts no store
  update and leaves the ledger as it is. Whenever it returns a response, the status is 200,
  and the body is the acknowledgement \<^verbatim>\<open>{"status":"acknowledged"}\<close> for a test event,
  \<^verbatim>\<open>Invalid webhook structure\<close> when the order id or the payment status is missing or falsy,
  and \<^verbatim>\<open>Invalid order_id format\<close> otherwise. It does return a response when the payload is
  not \<^verbatim>\<open>null\<close> and it is a test event, or the order id or the payment status is falsy, or
  the order id is a string and the payment status converts to a string.
\<close>

theorem webhook_bad_order_id:
  assumes "req_method req \<noteq> ''OPTIONS''"
    and "parse (req_body req) = Some payload"
    and "oid = opt_prop (opt_prop (opt_prop payload ''data'') ''order'') ''order_id''"
    and "ps = opt_prop (opt_prop (opt_prop payload ''data'') ''payment'') ''payment_status''"
    and "\<forall>s. oid = Str s \<longrightarrow> match_order s = None"
  shows "wh_ledger (webhook parse db_fault tbl req) = tbl
    \<and> wh_updates (webhook parse db_fault tbl req) = []
    \<and> (\<forall>r. wh_outcome (webhook parse db_fault tbl req) = Inr r \<longrightarrow>
          resp_status r = 200
          \<and> resp_body r =
              (if is_test_webhook payload = Inr True
               then Json (Obj [(''status'', Str ''acknowledged'')])
               else if \<not> truthy oid \<or> \<not> truthy ps then Text ''Invalid webhook structure''
               else Text ''Invalid order_id format''))
    \<and> (payload \<noteq> Null \<and> payload \<noteq> Undefined
        \<and> (is_test_webhook payload = Inr True \<or> \<not> truthy oid \<or> \<not> truthy ps
            \<or> ((\<exists>s. oid = Str s) \<and> \<not> to_string_throws ps))
        \<longrightarrow> (\<exists>r. wh_outcome (webhook parse db_fault tbl req) = Inr r))"
proof -
  have w: "webhook parse db_fault tbl req = webhook_payload db_fault tbl payload"
    using assms(1,2) by (simp add: webhook_def)
  show ?thesis
  proof (cases "payload = Null \<or> payload = Undefined")
    case True
    then show ?thesis unfolding w
      by (auto simp: webhook_payload_def is_test_webhook_def js_bind_def wh_throw_def)
  next
    case False
    then have nn: "payload \<noteq> Null" "payload \<noteq> Undefined" by simp_all
    obtain b where b: "is_test_webhook payload = Inr b"
      using is_test_webhook_total [OF nn] by blast
    have o: "payload_orderId payload = Inr oid"
      using payload_orderId_total [OF nn] assms(3) by simp
    have p: "payload_paymentStatus payload = Inr ps"
      using payload_paymentStatus_value [OF nn] assms(4) by simp
    show ?thesis unfolding w webhook_payload_outcome [OF b o p assms(5)]
      by (auto simp: b)
  qed
qed

theorem webhook_bad_order_id_witness:
  "match_order ''bad_format'' = None
   \<and> webhook (parse_as (event ''PAYMENT_SUCCESS_WEBHOOK'' False (Str ''bad_format'') (Str ''SUCCESS'')))
        None [row42] (post '''')
      = \<lparr>wh_outcome = Inr \<lparr>resp_status = 200, resp_headers = corsHeaders,
                            resp_body = Text ''Invalid order_id format''\<rparr>,
         wh_ledger = [row42], wh_updates = []\<rparr>
   \<and> webhook (parse_as (event ''PAYMENT_SUCCESS_WEBHOOK'' False (Num (Finite 0)) (Str ''SUCCESS'')))
        None [row42] (post '''')
      = \<lparr>wh_outcome = Inr \<lparr>resp_status = 200, resp_headers = corsHeaders,
                            resp_body = Text ''Invalid webhook structure''\<rparr>,
         wh_ledger = [row42], wh_updates = []\<rparr>"
proof -
  let ?e = "event ''PAYMENT_SUCCESS_WEBHOOK'' False (Str ''bad_format'') (Str ''SUCCESS'')"
  let ?f = "event ''PAYMENT_SUCCESS_WEBHOOK'' False (Num (Finite 0)) (Str ''SUCCESS'')"
  have h1: "req_method (post '''') \<noteq> ''OPTIONS''" by (simp add: post_def)
  have h4: "match_order ''bad_format'' = None" by (simp add: match_order_def)
  have e: "parse_as ?e (req_body (post '''')) = Some ?e"
    "Str ''bad_format'' = opt_prop (opt_prop (opt_prop ?e ''data'') ''order'') ''order_id''"
    "Str ''SUCCESS'' = opt_prop (opt_prop (opt_prop ?e ''data'') ''payment'') ''payment_status''"
    "\<forall>s. Str ''bad_format'' = Str s \<longrightarrow> match_order s = None"
    using h4 by (simp_all add: parse_as_def event_def)
  have f: "parse_as ?f (req_body (post '''')) = Some ?f"
    "Num (Finite 0) = opt_prop (opt_prop (opt_prop ?f ''data'') ''order'') ''order_id''"
    "Str ''SUCCESS'' = opt_prop (opt_prop (opt_prop ?f ''data'') ''payment'') ''payment_status''"
    "\<forall>s. Num (Finite 0) = Str s \<longrightarrow> match_order s = None"
    by (simp_all add: parse_as_def event_def)
  note we = webhook_bad_order_id [where parse = "parse_as ?e" and req = "post ''''" and payload = ?e
        and tbl = "[row42]" and db_fault = None, OF h1 e]
  note wf = webhook_bad_order_id [where parse = "parse_as ?f" and req = "post ''''" and payload = ?f
        and tbl = "[row42]" and db_fault = None, OF h1 f]
  have te: "is_test_webhook ?e = Inr False" "is_test_webhook ?f = Inr False"
    by (simp_all add: event_fields)
  have ne: "?e \<noteq> Null \<and> ?e \<noteq> Undefined" "?f \<noteq> Null \<and> ?f \<noteq> Undefined"
    by (simp_all add: event_def)
  obtain r where r: "wh_outcome (webhook (parse_as ?e) None [row42] (post '''')) = Inr r"
    using we ne(1) by auto
  then have r': "resp_status r = 200 \<and> resp_body r = Text ''Invalid order_id format''"
    using we te(1) by auto
  obtain q where q: "wh_outcome (webhook (parse_as ?f) None [row42] (post '''')) = Inr q"
    using wf ne(2) by auto
  then have q': "resp_status q = 200 \<and> resp_body q = Text ''Invalid webhook structure''"
    using wf te(2) by auto
  have hr: "resp_headers r = corsHeaders" "resp_headers q = corsHeaders"
    using r q
    by (auto simp: webhook_def parse_as_def post_def webhook_payload_def event_fields
          wh_return_def wh_throw_def ack_text_def h4 split: if_splits)
  have "webhook (parse_as ?e) None [row42] (post '''')
      = \<lparr>wh_outcome = Inr \<lparr>resp_status = 200, resp_headers = corsHeaders,
                            resp_body = Text ''Invalid order_id format''\<rparr>,
         wh_ledger = [row42], wh_updates = []\<rparr>"
    using we r r' hr(1) by (cases "webhook (parse_as ?e) None [row42] (post '''')"; cases r) auto
  moreover have "webhook (parse_as ?f) None [row42] (post '''')
      = \<lparr>wh_outcome = Inr \<lparr>resp_status = 200, resp_headers = corsHeaders,
                            resp_body = Text ''Invalid webhook structure''\<rparr>,
         wh_ledger = [row42], wh_updates = []\<rparr>"
    using wf q q' hr(2) by (cases "webhook (parse_as ?f) None [row42] (post '''')"; cases q) auto
  ultimately show ?thesis using h4 by blast
qed

section \<open>Facts about the order request handler\<close>

text \<open>
  The handler on a body whose fields can be read, and on a body that passes all checks.
\<close>

lemma valid_body_Obj:
  assumes "valid_body body"
  shows "\<exists>kvs. body = Obj kvs"
  using assms by (cases body) (simp_all add: valid_body_def)

lemma get_prop_opt_prop:
  assumes "body \<noteq> Null" "body \<noteq> Undefined"
  shows "get_prop body k = Inr (opt_prop body k)"
  using assms by (cases body) simp_all

lemma order_try_fields:
  assumes "config_ok p" and "JSON_parse p (req_body req) = Some body"
    and "body \<noteq> Null" and "body \<noteq> Undefined"
  shows "order_try p req =
     (if invalid_amount (opt_prop body ''amount'') then
        (Inr (jsonResponse (cors p) (error_body err_amount) 400), [])
      else if invalid_string (opt_prop body ''contributor'') then
        (Inr (jsonResponse (cors p) (error_body err_contributor) 400), [])
      else if invalid_string (opt_prop body ''contribution_id'') then
        (Inr (jsonResponse (cors p) (error_body err_contribution_id) 400), [])
      else
        (case fetch p (gateway_call p body) of
           FetchThrows e \<Rightarrow> (Inl e, [gateway_call p body])
         | FetchResponse st txt \<Rightarrow>
            (case JSON_parse p txt of
               None \<Rightarrow> (Inl SyntaxError, [gateway_call p body])
             | Some responseData \<Rightarrow>
                 if \<not> response_ok st then
                   (case gateway_error_message p responseData st of
                      Inl e \<Rightarrow> (Inl e, [gateway_call p body])
                    | Inr msg \<Rightarrow>
                        (Inr (jsonResponse (cors p) (error_body msg) 502), [gateway_call p body]))
                 else (Inr (jsonResponse (cors p) responseData 200), [gateway_call p body]))))"
  using assms(1,2) unfolding gateway_call_def order_try_def config_ok_def Let_def
  by (simp add: js_bind_def get_prop_opt_prop [OF assms(3,4)])

lemma order_try_valid:
  assumes "config_ok p" and "JSON_parse p (req_body req) = Some body" and "valid_body body"
  shows "order_try p req =
        (case fetch p (gateway_call p body) of
           FetchThrows e \<Rightarrow> (Inl e, [gateway_call p body])
         | FetchResponse st txt \<Rightarrow>
            (case JSON_parse p txt of
               None \<Rightarrow> (Inl SyntaxError, [gateway_call p body])
             | Some responseData \<Rightarrow>
                 if \<not> response_ok st then
                   (case gateway_error_message p responseData st of
                      Inl e \<Rightarrow> (Inl e, [gateway_call p body])
                    | Inr msg \<Rightarrow>
                        (Inr (jsonResponse (cors p) (error_body msg) 502), [gateway_call p body]))
                 else (Inr (jsonResponse (cors p) responseData 200), [gateway_call p body])))"
proof -
  obtain kvs where "body = Obj kvs" using valid_body_Obj [OF assms(3)] by blast
  then have nn: "body \<noteq> Null" "body \<noteq> Undefined" by simp_all
  show ?thesis
    using assms(3) unfolding order_try_fields [OF assms(1,2) nn] valid_body_def by simp
qed

lemma order_try_no_config:
  assumes "\<not> config_ok p"
  shows "order_try p req = (Inr (jsonResponse (cors p) (error_body err_config) 500), [])"
  using assms by (auto simp: order_try_def config_ok_def Let_def)

lemma order_try_bad_json:
  assumes "config_ok p" and "JSON_parse p (req_body req) = None"
  shows "order_try p req = (Inr (jsonResponse (cors p) (error_body err_json) 400), [])"
  using assms by (simp add: order_try_def config_ok_def Let_def)

lemma order_try_null:
  assumes "config_ok p" and "JSON_parse p (req_body req) = Some Null"
  shows "order_try p req = (Inl TypeError, [])"
  using assms by (simp add: order_try_def config_ok_def Let_def js_bind_def)

lemma order_handler_try:
  assumes "req_method req \<noteq> ''OPTIONS''" and "order_try p req = (Inr r, calls)"
  shows "order_handler p req = \<lparr>or_response = r, or_calls = calls\<rparr>"
  using assms by (simp add: order_handler_def)

lemma order_handler_valid_calls:
  assumes "req_method req \<noteq> ''OPTIONS''" and "config_ok p"
    and "JSON_parse p (req_body req) = Some body" and "valid_body body"
  shows "or_calls (order_handler p req) = [gateway_call p body]"
  using assms(1) unfolding order_handler_def order_try_valid [OF assms(2-4)]
  by (simp split: fetch_result.split option.split sum.split)

lemma err_distinct:
  "distinct [err_config, err_json, err_amount, err_contributor, err_contribution_id, err_internal]"
  by (simp add: err_config_def err_json_def err_amount_def err_contributor_def
        err_contribution_id_def err_internal_def)

lemma invalid_string_iff:
  "invalid_string v \<longleftrightarrow> (\<forall>s. v = Str s \<longrightarrow> (\<forall>c \<in> set s. is_space c))"
  by (cases v) (simp_all add: trim_empty_iff)

lemma invalid_amount_iff:
  "invalid_amount v \<longleftrightarrow> (\<forall>n. v = Num n \<longrightarrow> le_zero n)"
  by (cases v) simp_all

lemma sample_platform_simps:
  "cors (sample_platform c rj a aj) = corsHeaders"
  "config_ok (sample_platform c rj a aj) = c"
  "JSON_parse (sample_platform c rj a aj) (req_body (post ''request'')) = rj"
  "JSON_parse (sample_platform c rj a aj) ''answer'' = aj"
  "fetch (sample_platform c rj a aj) r = a"
  "req_method (post t) \<noteq> ''OPTIONS''"
  by (simp_all add: sample_platform_def config_ok_def env_falsy_def post_def)

lemma match_order_non_digit:
  assumes "cid = [] \<or> \<not> is_digit (hd cid)"
  shows "match_order (make_order_id cid t) = None"
proof (cases cid)
  case Nil
  then show ?thesis using underscore_not_digit by (simp add: match_order_def make_order_id_def)
next
  case (Cons c cs)
  then show ?thesis using assms by (simp add: match_order_def make_order_id_def)
qed

lemma gateway_call_order_id:
  assumes "opt_prop body ''contribution_id'' = Str cid"
  shows "opt_prop (gw_body (gateway_call p body)) ''order_id''
           = Str (make_order_id cid (Number_toString p (Date_now p)))"
  using assms by (simp add: gateway_call_def order_request_def)

text \<open>
  The gateway branch throws exactly on an answer that is \<^verbatim>\<open>null\<close> or whose message does not
  convert to a string.
\<close>

lemma gateway_error_message_throws:
  "(\<exists>e. gateway_error_message p rd st = Inl e) \<longleftrightarrow>
     rd = Null \<or> rd = Undefined \<or> to_string_throws (opt_prop rd ''message'')"
proof (cases "rd = Null \<or> rd = Undefined")
  case True
  then show ?thesis by (auto simp: gateway_error_message_def js_bind_def)
next
  case False
  then have g: "get_prop rd ''message'' = Inr (opt_prop rd ''message'')"
    by (simp add: get_prop_opt_prop)
  have t: "to_string_throws m \<Longrightarrow> truthy m" for m by (cases m) simp_all
  let ?m = "opt_prop rd ''message''"
  let ?v = "if truthy ?m then ?m
            else Str (''Cashfree API returned status '' @ Number_toString p (Finite (of_nat st)))"
  have "(\<exists>e. gateway_error_message p rd st = Inl e)
          = (\<exists>e. js_to_string (Number_toString p) ?v = Inl e)"
    by (auto simp: gateway_error_message_def g js_bind_def split: sum.splits)
  also have "\<dots> = to_string_throws ?v" by (rule js_to_string_throws(1))
  also have "\<dots> = to_string_throws ?m" using t [of ?m] by auto
  finally show ?thesis using False by simp
qed

section \<open>Validation of order requests\<close>

text \<open>
  Claim C5: the handler rejects a request at the first failing check, with no gateway call:
  a missing amount, or one that is no positive number, gets status 400. The code answers
  the body \<^verbatim>\<open>null\<close> differently: reading the fields of \<^verbatim>\<open>null\<close> throws, and the global handler
  answers 500 with the internal error. The bodies \<^verbatim>\<open>{}\<close>, \<^verbatim>\<open>[]\<close> and \<^verbatim>\<open>5\<close>, which have no
  amount either, get the 400 of the amount check.
\<close>

theorem order_null_body_internal_error:
  "order_handler (sample_platform True (Some Null) (FetchThrows TypeError) None)
      (post ''request'')
     = \<lparr>or_response =
          \<lparr>resp_status = 500,
           resp_headers = corsHeaders @ [(''Content-Type'', ''application/json'')],
           resp_body =
             Json (Obj [(''error'', Str ''An unexpected internal server error occurred.'')])\<rparr>,
        or_calls = []\<rparr>
   \<and> or_response (order_handler (sample_platform True (Some (Obj [])) (FetchThrows TypeError) None)
      (post ''request''))
     = \<lparr>resp_status = 400,
        resp_headers = corsHeaders @ [(''Content-Type'', ''application/json'')],
        resp_body = Json (Obj [(''error'', Str err_amount)])\<rparr>
   \<and> or_response (order_handler (sample_platform True (Some (Arr [])) (FetchThrows TypeError) None)
      (post ''request''))
     = \<lparr>resp_status = 400,
        resp_headers = corsHeaders @ [(''Content-Type'', ''application/json'')],
        resp_body = Json (Obj [(''error'', Str err_amount)])\<rparr>
   \<and> or_response (order_handler (sample_platform True (Some (Num (Finite 5))) (FetchThrows TypeError) None)
      (post ''request''))
     = \<lparr>resp_status = 400,
        resp_headers = corsHeaders @ [(''Content-Type'', ''application/json'')],
        resp_body = Json (Obj [(''error'', Str err_amount)])\<rparr>"
proof -
  let ?P = "\<lambda>b. sample_platform True (Some b) (FetchThrows TypeError) None"
  let ?R = "post ''request''"
  have c: "config_ok (?P b)" "JSON_parse (?P b) (req_body ?R) = Some b" for b
    by (simp_all add: sample_platform_simps)
  have 1: "order_try (?P Null) ?R = (Inl TypeError, [])" by (rule order_try_null [OF c])
  have f: "order_try (?P b) ?R
             = (Inr (jsonResponse corsHeaders (error_body err_amount) 400), [])"
    if "b \<noteq> Null" "b \<noteq> Undefined" "invalid_amount (opt_prop b ''amount'')" for b
    unfolding order_try_fields [OF c that(1,2)] using that(3) by (simp add: sample_platform_simps)
  show ?thesis
    using 1 f [of "Obj []"] f [of "Arr []"] f [of "Num (Finite 5)"]
    by (simp add: order_handler_def sample_platform_simps jsonResponse_error cors_json
          err_internal_def)
qed

text \<open>
  On every other body the checks are as the claim says: a missing setting gives 500; a body
  that does not parse gives 400; then the amount, the contributor and the contribution id
  are checked in this order, each failure with status 400 and a message of its own, and the
  five rejections differ.
\<close>

lemma order_validation_fail_fast:
  fixes p req
  defines "reject \<equiv> \<lambda>st m.
     \<lparr>or_response =
        \<lparr>resp_status = st,
         resp_headers = AList.update ''Content-Type'' ''application/json'' (cors p),
         resp_body = Json (Obj [(''error'', Str m)])\<rparr>,
      or_calls = []\<rparr>"
  assumes "req_method req \<noteq> ''OPTIONS''"
  shows
   "(\<not> config_ok p \<longrightarrow> order_handler p req = reject 500 err_config)
    \<and> (config_ok p \<and> JSON_parse p (req_body req) = None \<longrightarrow>
          order_handler p req = reject 400 err_json)
    \<and> (config_ok p \<and> JSON_parse p (req_body req) = Some body \<and> body \<noteq> Null \<and> body \<noteq> Undefined
        \<and> invalid_amount (opt_prop body ''amount'') \<longrightarrow>
          order_handler p req = reject 400 err_amount)
    \<and> (config_ok p \<and> JSON_parse p (req_body req) = Some body
        \<and> \<not> invalid_amount (opt_prop body ''amount'')
        \<and> invalid_string (opt_prop body ''contributor'') \<longrightarrow>
          order_handler p req = reject 400 err_contributor)
    \<and> (config_ok p \<and> JSON_parse p (req_body req) = Some body
        \<and> \<not> invalid_amount (opt_prop body ''amount'')
        \<and> \<not> invalid_string (opt_prop body ''contributor'')
        \<and> invalid_string (opt_prop body ''contribution_id'') \<longrightarrow>
          order_handler p req = reject 400 err_contribution_id)
    \<and> distinct [reject 500 err_config, reject 400 err_json, reject 400 err_amount,
                 reject 400 err_contributor, reject 400 err_contribution_id]"
proof -
  have nn: "body \<noteq> Null \<and> body \<noteq> Undefined" if "\<not> invalid_amount (opt_prop body ''amount'')"
    using that by (cases body) simp_all
  have r: "\<lparr>or_response = jsonResponse (cors p) (error_body m) st, or_calls = []\<rparr> = reject st m"
    for st m by (simp add: reject_def jsonResponse_error)
  have 1: "\<not> config_ok p \<longrightarrow> order_handler p req = reject 500 err_config"
    using order_handler_try [OF assms(2) order_try_no_config] r by metis
  have 2: "config_ok p \<and> JSON_parse p (req_body req) = None \<longrightarrow>
          order_handler p req = reject 400 err_json"
    using order_handler_try [OF assms(2) order_try_bad_json] r by metis
  have 3: "config_ok p \<and> JSON_parse p (req_body req) = Some body \<and> body \<noteq> Null \<and> body \<noteq> Undefined
        \<and> invalid_amount (opt_prop body ''amount'') \<longrightarrow>
          order_handler p req = reject 400 err_amount"
    using order_try_fields [of p req body] assms(2) by (simp add: order_handler_def r)
  have 4: "config_ok p \<and> JSON_parse p (req_body req) = Some body
        \<and> \<not> invalid_amount (opt_prop body ''amount'')
        \<and> invalid_string (opt_prop body ''contributor'') \<longrightarrow>
          order_handler p req = reject 400 err_contributor"
    using order_try_fields [of p req body] assms(2) nn by (auto simp: order_handler_def r)
  have 5: "config_ok p \<and> JSON_parse p (req_body req) = Some body
        \<and> \<not> invalid_amount (opt_prop body ''amount'')
        \<and> \<not> invalid_string (opt_prop body ''contributor'')
        \<and> invalid_string (opt_prop body ''contribution_id'') \<longrightarrow>
          order_handler p req = reject 400 err_contribution_id"
    using order_try_fields [of p req body] assms(2) nn by (auto simp: order_handler_def r)
  have 6: "distinct [reject 500 err_config, reject 400 err_json, reject 400 err_amount,
                 reject 400 err_contributor, reject 400 err_contribution_id]"
    using err_distinct by (simp add: reject_def)
  show ?thesis using 1 2 3 4 5 6 by blast
qed

section \<open>The gateway's answer\<close>

text \<open>
  Claim C6: when the gateway answers a valid request with a status outside 200 to 299, the
  handler answers 502 with the upstream message, or with a text made of the status. The
  code parses the body of the answer before it looks at the status: on the answer 503 with
  an HTML body the parser throws and the handler answers 500 with the internal error. On
  the answer 503 with the JSON body \<^verbatim>\<open>{}\<close> it answers 502 with the text made of the status.
\<close>

theorem gateway_error_html_body:
  "\<not> response_ok 503
   \<and> valid_body (order_body (Num (Finite 500)) (Str ''Asha'') (Str ''42''))
   \<and> or_response (order_handler
        (sample_platform True (Some (order_body (Num (Finite 500)) (Str ''Asha'') (Str ''42'')))
           (FetchResponse 503 ''<html>Service Unavailable</html>'') None)
        (post ''request''))
      = \<lparr>resp_status = 500,
         resp_headers = corsHeaders @ [(''Content-Type'', ''application/json'')],
         resp_body = Json (Obj [(''error'', Str ''An unexpected internal server error occurred.'')])\<rparr>
   \<and> or_response (order_handler
        (sample_platform True (Some (order_body (Num (Finite 500)) (Str ''Asha'') (Str ''42'')))
           (FetchResponse 503 ''answer'') (Some (Obj [])))
        (post ''request''))
      = \<lparr>resp_status = 502,
         resp_headers = corsHeaders @ [(''Content-Type'', ''application/json'')],
         resp_body = Json (Obj [(''error'',
                        Str ''Payment gateway error: Cashfree API returned status 503'')])\<rparr>"
proof -
  let ?R = "post ''request''"
  let ?B = "order_body (Num (Finite 500)) (Str ''Asha'') (Str ''42'')"
  let ?P = "sample_platform True (Some ?B) (FetchResponse 503 ''<html>Service Unavailable</html>'') None"
  let ?Q = "sample_platform True (Some ?B) (FetchResponse 503 ''answer'') (Some (Obj []))"
  have t: "trim ''Asha'' \<noteq> []" "trim ''42'' \<noteq> []" by (simp_all add: trim_def is_space_def)
  have v: "valid_body ?B" by (simp add: valid_body_def order_body_def t)
  have c: "config_ok ?P" "config_ok ?Q" by (simp_all add: sample_platform_simps)
  have j: "JSON_parse ?P (req_body ?R) = Some ?B" "JSON_parse ?Q (req_body ?R) = Some ?B"
    by (simp_all add: sample_platform_simps)
  have a: "JSON_parse ?P ''<html>Service Unavailable</html>'' = None"
    by (simp add: sample_platform_def)
  have g: "gateway_error_message ?Q (Obj []) 503
             = Inr ''Payment gateway error: Cashfree API returned status 503''"
    by (simp add: gateway_error_message_def js_bind_def sample_platform_def)
  have 1: "order_try ?P ?R = (Inl SyntaxError, [gateway_call ?P ?B])"
    unfolding order_try_valid [OF c(1) j(1) v] using a by (simp add: sample_platform_simps)
  have 2: "order_try ?Q ?R
             = (Inr (jsonResponse corsHeaders
                  (error_body ''Payment gateway error: Cashfree API returned status 503'') 502),
                [gateway_call ?Q ?B])"
    unfolding order_try_valid [OF c(2) j(2) v] using g
    by (simp add: sample_platform_simps response_ok_def)
  show ?thesis using v 1 2
    by (simp add: order_handler_def sample_platform_simps response_ok_def jsonResponse_error
          cors_json err_internal_def)
qed

text \<open>
  With a JSON body other than \<^verbatim>\<open>null\<close> whose message converts to a string, the answer is as
  the claim says.
\<close>

lemma gateway_error_gives_502:
  assumes "req_method req \<noteq> ''OPTIONS''" and "config_ok p"
    and "JSON_parse p (req_body req) = Some body" and "valid_body body"
    and "fetch p (gateway_call p body) = FetchResponse st txt" and "\<not> response_ok st"
    and "JSON_parse p txt = Some responseData"
    and "responseData \<noteq> Null" and "responseData \<noteq> Undefined"
    and "js_to_string (Number_toString p)
           (if truthy (opt_prop responseData ''message'') then opt_prop responseData ''message''
            else Str (''Cashfree API returned status '' @ Number_toString p (Finite (of_nat st))))
         = Inr t"
  shows "order_handler p req =
           \<lparr>or_response =
              \<lparr>resp_status = 502,
               resp_headers = AList.update ''Content-Type'' ''application/json'' (cors p),
               resp_body = Json (Obj [(''error'', Str (''Payment gateway error: '' @ t))])\<rparr>,
            or_calls = [gateway_call p body]\<rparr>
         \<and> (\<forall>s. opt_prop responseData ''message'' = Str s \<and> s \<noteq> [] \<longrightarrow> t = s)
         \<and> (\<not> truthy (opt_prop responseData ''message'') \<longrightarrow>
              t = ''Cashfree API returned status '' @ Number_toString p (Finite (of_nat st)))"
proof -
  have g: "gateway_error_message p responseData st = Inr (''Payment gateway error: '' @ t)"
    using assms(10) by (simp add: gateway_error_message_def js_bind_def
        get_prop_opt_prop [OF assms(8,9)])
  have "order_try p req =
          (Inr (jsonResponse (cors p) (error_body (''Payment gateway error: '' @ t)) 502),
           [gateway_call p body])"
    unfolding order_try_valid [OF assms(2-4)] using assms(5-7) g by simp
  then have 1: "order_handler p req =
           \<lparr>or_response =
              \<lparr>resp_status = 502,
               resp_headers = AList.update ''Content-Type'' ''application/json'' (cors p),
               resp_body = Json (Obj [(''error'', Str (''Payment gateway error: '' @ t))])\<rparr>,
            or_calls = [gateway_call p body]\<rparr>"
    using assms(1) by (simp add: order_handler_def jsonResponse_error)
  have 2: "\<forall>s. opt_prop responseData ''message'' = Str s \<and> s \<noteq> [] \<longrightarrow> t = s"
    using assms(10) by auto
  have 3: "\<not> truthy (opt_prop responseData ''message'') \<longrightarrow>
              t = ''Cashfree API returned status '' @ Number_toString p (Finite (of_nat st))"
    using assms(10) by auto
  show ?thesis using 1 2 3 by blast
qed

text \<open>
  Claim C7, as stated: the body of a successful answer of the gateway reaches the caller
  unmodified. It fails on the body
  \<^verbatim>\<open>{"payment_session_id":"session_abc123","order_amount":1e400}\<close>: the number parses to
  \<^verbatim>\<open>Infinity\<close>, which \<^verbatim>\<open>JSON.stringify\<close> writes as \<^verbatim>\<open>null\<close>.
\<close>

theorem gateway_success_counterexample:
  "config_ok (sample_platform True (Some (order_body (Num (Finite 500)) (Str ''Asha'') (Str ''42'')))
      (FetchResponse 200 ''answer'')
      (Some (Obj [(''payment_session_id'', Str ''session_abc123''),
                  (''order_amount'', Num PosInfinity)])))
   \<and> valid_body (order_body (Num (Finite 500)) (Str ''Asha'') (Str ''42''))
   \<and> response_ok 200
   \<and> or_response (order_handler
        (sample_platform True (Some (order_body (Num (Finite 500)) (Str ''Asha'') (Str ''42'')))
           (FetchResponse 200 ''answer'')
           (Some (Obj [(''payment_session_id'', Str ''session_abc123''),
                       (''order_amount'', Num PosInfinity)])))
        (post ''request''))
      = \<lparr>resp_status = 200,
         resp_headers = corsHeaders @ [(''Content-Type'', ''application/json'')],
         resp_body = Json (Obj [(''payment_session_id'', Str ''session_abc123''),
                                (''order_amount'', Null)])\<rparr>
   \<and> Obj [(''payment_session_id'', Str ''session_abc123''), (''order_amount'', Null)]
       \<noteq> Obj [(''payment_session_id'', Str ''session_abc123''), (''order_amount'', Num PosInfinity)]"
proof -
  let ?R = "post ''request''"
  let ?B = "order_body (Num (Finite 500)) (Str ''Asha'') (Str ''42'')"
  let ?D = "Obj [(''payment_session_id'', Str ''session_abc123''), (''order_amount'', Num PosInfinity)]"
  let ?P = "sample_platform True (Some ?B) (FetchResponse 200 ''answer'') (Some ?D)"
  have t: "trim ''Asha'' \<noteq> []" "trim ''42'' \<noteq> []" by (simp_all add: trim_def is_space_def)
  have v: "valid_body ?B" by (simp add: valid_body_def order_body_def t)
  have c: "config_ok ?P" by (simp add: sample_platform_simps)
  have j: "JSON_parse ?P (req_body ?R) = Some ?B" by (simp add: sample_platform_simps)
  have "order_try ?P ?R = (Inr (jsonResponse corsHeaders ?D 200), [gateway_call ?P ?B])"
    unfolding order_try_valid [OF c j v] by (simp add: sample_platform_simps response_ok_def)
  then show ?thesis using v c
    by (simp add: order_handler_def sample_platform_simps response_ok_def jsonResponse_def
          json_body_def cors_json)
qed

text \<open>
  Claim C7, amended: for every request that passes validation, if the gateway answers with a
  status from 200 to 299 and a body that parses as JSON, the handler answers 200 after one
  gateway call, and its body is \<^verbatim>\<open>JSON.stringify\<close> of the parsed value: the same value when
  all its numbers are finite, and in every case with a string \<^verbatim>\<open>payment_session_id\<close>
  unchanged.
\<close>

theorem gateway_success_forwarded:
  assumes "req_method req \<noteq> ''OPTIONS''" and "config_ok p"
    and "JSON_parse p (req_body req) = Some body" and "valid_body body"
    and "fetch p (gateway_call p body) = FetchResponse st txt" and "response_ok st"
    and "JSON_parse p txt = Some responseData"
  shows "or_calls (order_handler p req) = [gateway_call p body]
         \<and> resp_status (or_response (order_handler p req)) = 200
         \<and> resp_body (or_response (order_handler p req)) = json_body responseData
         \<and> (finite_json responseData \<longrightarrow>
              resp_body (or_response (order_handler p req)) = Json responseData)
         \<and> (\<forall>token. opt_prop responseData ''payment_session_id'' = Str token \<longrightarrow>
              (\<exists>v. resp_body (or_response (order_handler p req)) = Json v
                   \<and> opt_prop v ''payment_session_id'' = Str token))"
proof -
  have "order_try p req = (Inr (jsonResponse (cors p) responseData 200), [gateway_call p body])"
    unfolding order_try_valid [OF assms(2-4)] using assms(5-7) by simp
  then have o: "order_handler p req =
      \<lparr>or_response = jsonResponse (cors p) responseData 200, or_calls = [gateway_call p body]\<rparr>"
    using assms(1) by (simp add: order_handler_def)
  have f: "finite_json responseData \<longrightarrow> json_body responseData = Json responseData"
    by (cases responseData) (auto simp: json_body_def stringify_exact)
  have k: "\<forall>token. opt_prop responseData ''payment_session_id'' = Str token \<longrightarrow>
              (\<exists>v. json_body responseData = Json v \<and> opt_prop v ''payment_session_id'' = Str token)"
  proof (intro allI impI)
    fix token assume a: "opt_prop responseData ''payment_session_id'' = Str token"
    then have "responseData \<noteq> Undefined" by auto
    then show "\<exists>v. json_body responseData = Json v \<and> opt_prop v ''payment_session_id'' = Str token"
      using stringify_string_prop [OF a] by (simp add: json_body_def)
  qed
  show ?thesis unfolding o using f k by (simp add: jsonResponse_def)
qed

theorem gateway_success_forwarded_witness:
  "response_ok 200
   \<and> finite_json (Obj [(''order_id'', Str ''order_42_1700000000000''),
                       (''payment_session_id'', Str ''session_abc123'')])
   \<and> resp_status (or_response (order_handler
       (sample_platform True (Some (order_body (Num (Finite 500)) (Str ''Asha'') (Str ''42'')))
          (FetchResponse 200 ''answer'')
          (Some (Obj [(''order_id'', Str ''order_42_1700000000000''),
                      (''payment_session_id'', Str ''session_abc123'')])))
       (post ''request''))) = 200
   \<and> resp_body (or_response (order_handler
       (sample_platform True (Some (order_body (Num (Finite 500)) (Str ''Asha'') (Str ''42'')))
          (FetchResponse 200 ''answer'')
          (Some (Obj [(''order_id'', Str ''order_42_1700000000000''),
                      (''payment_session_id'', Str ''session_abc123'')])))
       (post ''request'')))
     = Json (Obj [(''order_id'', Str ''order_42_1700000000000''),
                  (''payment_session_id'', Str ''session_abc123'')])"
proof -
  let ?R = "post ''request''"
  let ?B = "order_body (Num (Finite 500)) (Str ''Asha'') (Str ''42'')"
  let ?D = "Obj [(''order_id'', Str ''order_42_1700000000000''),
                 (''payment_session_id'', Str ''session_abc123'')]"
  let ?P = "sample_platform True (Some ?B) (FetchResponse 200 ''answer'') (Some ?D)"
  have m: "req_method ?R \<noteq> ''OPTIONS''" by (simp add: sample_platform_simps)
  have t: "trim ''Asha'' \<noteq> []" "trim ''42'' \<noteq> []" by (simp_all add: trim_def is_space_def)
  have v: "valid_body ?B" by (simp add: valid_body_def order_body_def t)
  have ok: "response_ok 200" by (simp add: response_ok_def)
  have c: "config_ok ?P" by (simp add: sample_platform_simps)
  have j: "JSON_parse ?P (req_body ?R) = Some ?B" by (simp add: sample_platform_simps)
  have f: "fetch ?P (gateway_call ?P ?B) = FetchResponse 200 ''answer''"
    by (simp add: sample_platform_simps)
  have a: "JSON_parse ?P ''answer'' = Some ?D" by (simp add: sample_platform_simps)
  have fj: "finite_json ?D" by simp
  show ?thesis
    using ok fj gateway_success_forwarded [OF m c j v f ok a] by blast
qed

text \<open>
  Claim C8: whenever the body of the \<^verbatim>\<open>try\<close> block throws, the handler answers with status
  500 and the body \<^verbatim>\<open>{"error":"An unexpected internal server error occurred."}\<close>. It throws
  exactly when the settings are present and the request body is \<^verbatim>\<open>null\<close>, or the request
  is valid and \<^verbatim>\<open>fetch\<close> throws, or the body of the gateway's answer does not parse, or
  that answer is an error whose body is \<^verbatim>\<open>null\<close> or has a message that does not convert to
  a string. Every response of the handler has status 200, or one of 400, 500 and 502 with
  a body \<^verbatim>\<open>{"error": message}\<close>: no exception leaves the handler.
\<close>

theorem order_fault_gives_internal_error:
  assumes "req_method req \<noteq> ''OPTIONS''"
  shows
   "(\<forall>e calls. order_try p req = (Inl e, calls) \<longrightarrow>
        resp_status (or_response (order_handler p req)) = 500
        \<and> resp_body (or_response (order_handler p req))
            = Json (Obj [(''error'', Str ''An unexpected internal server error occurred.'')])
        \<and> or_calls (order_handler p req) = calls)
    \<and> ((\<exists>e calls. order_try p req = (Inl e, calls)) \<longleftrightarrow>
         config_ok p
         \<and> (\<exists>body. JSON_parse p (req_body req) = Some body
              \<and> (body = Null \<or> body = Undefined
                  \<or> (valid_body body
                      \<and> (case fetch p (gateway_call p body) of
                            FetchThrows e \<Rightarrow> True
                          | FetchResponse st txt \<Rightarrow>
                             (case JSON_parse p txt of
                                None \<Rightarrow> True
                              | Some rd \<Rightarrow>
                                  \<not> response_ok st
                                  \<and> (rd = Null \<or> rd = Undefined
                                      \<or> to_string_throws (opt_prop rd ''message''))))))))
    \<and> (resp_status (or_response (order_handler p req)) = 200
        \<or> (resp_status (or_response (order_handler p req)) \<in> {400, 500, 502}
            \<and> (\<exists>msg. resp_body (or_response (order_handler p req))
                        = Json (Obj [(''error'', Str msg)]))))"
proof -
  have 1: "\<forall>e calls. order_try p req = (Inl e, calls) \<longrightarrow>
        resp_status (or_response (order_handler p req)) = 500
        \<and> resp_body (or_response (order_handler p req))
            = Json (Obj [(''error'', Str ''An unexpected internal server error occurred.'')])
        \<and> or_calls (order_handler p req) = calls"
    using assms by (auto simp: order_handler_def jsonResponse_error err_internal_def)
  let ?F = "config_ok p
         \<and> (\<exists>body. JSON_parse p (req_body req) = Some body
              \<and> (body = Null \<or> body = Undefined
                  \<or> (valid_body body
                      \<and> (case fetch p (gateway_call p body) of
                            FetchThrows e \<Rightarrow> True
                          | FetchResponse st txt \<Rightarrow>
                             (case JSON_parse p txt of
                                None \<Rightarrow> True
                              | Some rd \<Rightarrow>
                                  \<not> response_ok st
                                  \<and> (rd = Null \<or> rd = Undefined
                                      \<or> to_string_throws (opt_prop rd ''message'')))))))"
  let ?S = "\<lambda>r. resp_status r = 200
        \<or> (resp_status r \<in> {400, 500, 502}
            \<and> (\<exists>msg. resp_body r = Json (Obj [(''error'', Str msg)])))"
  have 23: "((\<exists>e calls. order_try p req = (Inl e, calls)) \<longleftrightarrow> ?F)
            \<and> ?S (or_response (order_handler p req))"
  proof (cases "config_ok p")
    case False
    then show ?thesis using assms
      by (simp add: order_try_no_config order_handler_def jsonResponse_error)
  next
    case c: True
    show ?thesis
    proof (cases "JSON_parse p (req_body req)")
      case None
      then show ?thesis using assms c
        by (simp add: order_try_bad_json order_handler_def jsonResponse_error)
    next
      case (Some body)
      show ?thesis
      proof (cases "body = Null \<or> body = Undefined")
        case True
        then have "order_try p req = (Inl TypeError, [])"
          using c Some by (auto simp: order_try_def config_ok_def Let_def js_bind_def)
        then show ?thesis using assms c Some True
          by (auto simp: order_handler_def jsonResponse_error)
      next
        case False
        then have nn: "body \<noteq> Null" "body \<noteq> Undefined" by simp_all
        show ?thesis
        proof (cases "valid_body body")
          case False
          then show ?thesis using assms c Some nn
            unfolding order_handler_def order_try_fields [OF c Some nn] valid_body_def
            by (auto simp: jsonResponse_error)
        next
          case v: True
          show ?thesis
          proof (cases "fetch p (gateway_call p body)")
            case (FetchThrows e)
            then show ?thesis using assms c Some v nn
              unfolding order_handler_def order_try_valid [OF c Some v]
              by (simp add: jsonResponse_error)
          next
            case (FetchResponse st tx)
            show ?thesis
            proof (cases "JSON_parse p tx")
              case None
              then show ?thesis using assms c Some v nn FetchResponse
                unfolding order_handler_def order_try_valid [OF c Some v]
                by (simp add: jsonResponse_error)
            next
              case rd: (Some rd)
              show ?thesis
              proof (cases "response_ok st")
                case True
                then show ?thesis using assms c Some v nn FetchResponse rd
                  unfolding order_handler_def order_try_valid [OF c Some v]
                  by (simp add: jsonResponse_def)
              next
                case False
                show ?thesis
                proof (cases "gateway_error_message p rd st")
                  case (Inl e)
                  then have "rd = Null \<or> rd = Undefined \<or> to_string_throws (opt_prop rd ''message'')"
                    using gateway_error_message_throws [of p rd st] by blast
                  then show ?thesis using assms c Some v nn FetchResponse rd False Inl
                    unfolding order_handler_def order_try_valid [OF c Some v]
                    by (simp add: jsonResponse_error)
                next
                  case (Inr msg)
                  then have "\<not> (rd = Null \<or> rd = Undefined \<or> to_string_throws (opt_prop rd ''message''))"
                    using gateway_error_message_throws [of p rd st] by auto
                  then show ?thesis using assms c Some v nn FetchResponse rd False Inr
                    unfolding order_handler_def order_try_valid [OF c Some v]
                    by (simp add: jsonResponse_error)
                qed
              qed
            qed
          qed
        qed
      qed
    qed
  qed
  show ?thesis using 1 23 by blast
qed

theorem order_fault_gives_internal_error_witness:
  "req_method (post ''request'') \<noteq> ''OPTIONS''
   \<and> order_try (sample_platform True (Some (order_body (Num (Finite 500)) (Str ''Asha'') (Str ''42'')))
        (FetchThrows TypeError) None) (post ''request'')
      = (Inl TypeError,
         [gateway_call (sample_platform True (Some (order_body (Num (Finite 500)) (Str ''Asha'') (Str ''42'')))
            (FetchThrows TypeError) None) (order_body (Num (Finite 500)) (Str ''Asha'') (Str ''42''))])
   \<and> resp_status (or_response (order_handler
        (sample_platform True (Some (order_body (Num (Finite 500)) (Str ''Asha'') (Str ''42'')))
           (FetchThrows TypeError) None) (post ''request''))) = 500
   \<and> resp_body (or_response (order_handler
        (sample_platform True (Some (order_body (Num (Finite 500)) (Str ''Asha'') (Str ''42'')))
           (FetchThrows TypeError) None) (post ''request'')))
      = Json (Obj [(''error'', Str ''An unexpected internal server error occurred.'')])"
proof -
  let ?B = "order_body (Num (Finite 500)) (Str ''Asha'') (Str ''42'')"
  let ?P = "sample_platform True (Some ?B) (FetchThrows TypeError) None"
  have m: "req_method (post ''request'') \<noteq> ''OPTIONS''" by (simp add: sample_platform_simps)
  have t: "trim ''Asha'' \<noteq> []" "trim ''42'' \<noteq> []" by (simp_all add: trim_def is_space_def)
  have v: "valid_body ?B" by (simp add: valid_body_def order_body_def t)
  have f: "order_try ?P (post ''request'') = (Inl TypeError, [gateway_call ?P ?B])"
    using order_try_valid [of ?P "post ''request''" ?B] v by (simp add: sample_platform_simps)
  show ?thesis
    using m f order_fault_gives_internal_error [OF m, of ?P] by blast
qed

section \<open>Contribution ids that are no numbers\<close>

text \<open>
  Claim C10, as stated: the order handler accepts any non-empty contribution id. It fails on
  the id that is one space, a non-empty string: the handler trims before it compares with
  the empty string, and rejects the request with status 400 and no gateway call.
\<close>

theorem blank_id_rejected_counterexample:
  "'' '' \<noteq> []
   \<and> order_handler
        (sample_platform True (Some (order_body (Num (Finite 500)) (Str ''Asha'') (Str '' '')))
           (FetchResponse 200 ''answer'') (Some (Obj [(''payment_session_id'', Str ''session_abc123'')])))
        (post ''request'')
      = \<lparr>or_response = jsonResponse corsHeaders (error_body err_contribution_id) 400,
         or_calls = []\<rparr>"
proof -
  let ?R = "post ''request''"
  let ?B = "order_body (Num (Finite 500)) (Str ''Asha'') (Str '' '')"
  let ?P = "sample_platform True (Some ?B) (FetchResponse 200 ''answer'')
              (Some (Obj [(''payment_session_id'', Str ''session_abc123'')]))"
  have t: "trim ''Asha'' \<noteq> []" "trim '' '' = []" by (simp_all add: trim_def is_space_def)
  have c: "config_ok ?P" by (simp add: sample_platform_simps)
  have j: "JSON_parse ?P (req_body ?R) = Some ?B" by (simp add: sample_platform_simps)
  have nn: "?B \<noteq> Null" "?B \<noteq> Undefined" by (simp_all add: order_body_def)
  have "order_try ?P ?R
          = (Inr (jsonResponse (cors ?P) (error_body err_contribution_id) 400), [])"
    unfolding order_try_fields [OF c j nn] by (simp add: order_body_def t)
  then show ?thesis by (simp add: order_handler_def sample_platform_simps)
qed

text \<open>
  Claim C10, amended: the order handler accepts every contribution id that is a string and
  not empty after trimming, and calls the gateway with the order identifier
  \<^verbatim>\<open>order_<contribution_id>_<now>\<close>. If the first character of the contribution id is no
  digit, the webhook's pattern does not match that identifier, and a webhook delivery that
  carries it attempts no store update and leaves the ledger as it is, whatever else the
  payload holds.
\<close>

theorem non_digit_id_never_reconciled:
  assumes "req_method req \<noteq> ''OPTIONS''" and "config_ok p"
    and "JSON_parse p (req_body req) = Some body"
    and "\<not> invalid_amount (opt_prop body ''amount'')"
    and "\<not> invalid_string (opt_prop body ''contributor'')"
    and "opt_prop body ''contribution_id'' = Str cid"
    and "trim cid \<noteq> []" and "\<not> is_digit (hd cid)"
    and "req_method wreq \<noteq> ''OPTIONS''" and "parse (req_body wreq) = Some payload"
    and "payload_orderId payload = Inr (opt_prop (gw_body (gateway_call p body)) ''order_id'')"
  shows "or_calls (order_handler p req) = [gateway_call p body]
    \<and> opt_prop (gw_body (gateway_call p body)) ''order_id''
        = Str (make_order_id cid (Number_toString p (Date_now p)))
    \<and> call_match (opt_prop (gw_body (gateway_call p body)) ''order_id'') = Inr None
    \<and> wh_ledger (webhook parse db_fault tbl wreq) = tbl
    \<and> wh_updates (webhook parse db_fault tbl wreq) = []"
proof -
  have v: "valid_body body" using assms(4-7) by (simp add: valid_body_def)
  note o = gateway_call_order_id [OF assms(6), of p]
  have n: "match_order (make_order_id cid (Number_toString p (Date_now p))) = None"
    using match_order_non_digit assms(8) by blast
  have w: "webhook parse db_fault tbl wreq = webhook_payload db_fault tbl payload"
    using assms(9,10) by (simp add: webhook_def)
  have p: "payload_orderId payload = Inr (Str (make_order_id cid (Number_toString p (Date_now p))))"
    using assms(11) o by simp
  show ?thesis
    using order_handler_valid_calls [OF assms(1-3) v] o n webhook_payload_no_match(1,2) [OF p n]
    by (simp add: w)
qed

theorem non_digit_id_never_reconciled_witness:
  "trim ''abc'' \<noteq> [] \<and> \<not> is_digit (hd ''abc'')
   \<and> or_calls (order_handler
        (sample_platform True (Some (order_body (Num (Finite 500)) (Str ''Asha'') (Str ''abc'')))
           (FetchResponse 200 ''answer'') (Some (Obj [(''payment_session_id'', Str ''session_abc123'')])))
        (post ''request''))
      = [gateway_call
           (sample_platform True (Some (order_body (Num (Finite 500)) (Str ''Asha'') (Str ''abc'')))
              (FetchResponse 200 ''answer'') (Some (Obj [(''payment_session_id'', Str ''session_abc123'')])))
           (order_body (Num (Finite 500)) (Str ''Asha'') (Str ''abc''))]
   \<and> opt_prop (gw_body (gateway_call
           (sample_platform True (Some (order_body (Num (Finite 500)) (Str ''Asha'') (Str ''abc'')))
              (FetchResponse 200 ''answer'') (Some (Obj [(''payment_session_id'', Str ''session_abc123'')])))
           (order_body (Num (Finite 500)) (Str ''Asha'') (Str ''abc'')))) ''order_id''
      = Str ''order_abc_1700000000000''
   \<and> wh_ledger (webhook
        (parse_as (event ''PAYMENT_SUCCESS_WEBHOOK'' False (Str ''order_abc_1700000000000'') (Str ''SUCCESS'')))
        None [row42] (post '''')) = [row42]
   \<and> wh_updates (webhook
        (parse_as (event ''PAYMENT_SUCCESS_WEBHOOK'' False (Str ''order_abc_1700000000000'') (Str ''SUCCESS'')))
        None [row42] (post '''')) = []"
proof -
  let ?R = "post ''request''"
  let ?B = "order_body (Num (Finite 500)) (Str ''Asha'') (Str ''abc'')"
  let ?P = "sample_platform True (Some ?B) (FetchResponse 200 ''answer'')
              (Some (Obj [(''payment_session_id'', Str ''session_abc123'')]))"
  let ?e = "event ''PAYMENT_SUCCESS_WEBHOOK'' False (Str ''order_abc_1700000000000'') (Str ''SUCCESS'')"
  have m: "req_method ?R \<noteq> ''OPTIONS''" "req_method (post '''') \<noteq> ''OPTIONS''"
    by (simp_all add: sample_platform_simps)
  have t: "trim ''Asha'' \<noteq> []" "trim ''abc'' \<noteq> []" by (simp_all add: trim_def is_space_def)
  have d: "\<not> is_digit (hd ''abc'')" by (simp add: is_digit_def)
  have c: "config_ok ?P" by (simp add: sample_platform_simps)
  have j: "JSON_parse ?P (req_body ?R) = Some ?B" by (simp add: sample_platform_simps)
  have b: "\<not> invalid_amount (opt_prop ?B ''amount'')" "\<not> invalid_string (opt_prop ?B ''contributor'')"
    "opt_prop ?B ''contribution_id'' = Str ''abc''"
    by (simp_all add: order_body_def t)
  have o: "opt_prop (gw_body (gateway_call ?P ?B)) ''order_id'' = Str ''order_abc_1700000000000''"
    by (simp add: gateway_call_order_id [OF b(3)] make_order_id_def sample_platform_def)
  have h2: "parse_as ?e (req_body (post '''')) = Some ?e" by (simp add: parse_as_def)
  have h3: "payload_orderId ?e = Inr (opt_prop (gw_body (gateway_call ?P ?B)) ''order_id'')"
    unfolding o by (simp add: event_fields)
  note r = non_digit_id_never_reconciled [where parse = "parse_as ?e" and wreq = "post ''''"
      and payload = ?e and tbl = "[row42]" and db_fault = None and p = ?P and req = ?R
      and body = ?B and cid = "''abc''", OF m(1) c j b t(2) d m(2) h2 h3]
  show ?thesis using t(2) d r o by blast
qed

section \<open>The order of the client flow\<close>

lemma handlePayOnline_invalid:
  assumes "\<not> fst (validateForm b contributor amount)"
  shows "handlePayOnline b contributor amount =
           [SetError None, SetError (Some ''Please enter a valid name and a positive amount.'')]"
  using assms by (auto simp: handlePayOnline_def validateForm_def split: if_splits)

lemma handlePayOnline_valid:
  assumes "fst (validateForm b contributor amount)"
  shows "\<exists>tail. handlePayOnline b contributor amount =
           [SetError None, SetLoading True, SetError None] @ snd (pay_try b contributor amount) @ tail
           \<and> (\<exists>m. tail = [SetLoading False] \<or> tail = [SetError m, SetLoading False])"
  using assms
  by (auto simp: handlePayOnline_def validateForm_def split: if_splits prod.splits option.splits)

text \<open>The three courses of the \<^verbatim>\<open>try\<close> block.\<close>

lemma pay_try_steps:
  fixes b contributor amount
  defines "row \<equiv> pending_row b contributor amount"
  defines "idres \<equiv> js_bind (get_prop (fst (db_insert b row)) ''id'') (js_to_string (num_toString b))"
  shows "(snd (pay_try b contributor amount) = [Insert row]
            \<and> (truthy (snd (db_insert b row)) \<or> (\<exists>e. idres = Inl e)))
       \<or> (\<exists>cid. \<not> truthy (snd (db_insert b row)) \<and> idres = Inr cid
            \<and> snd (pay_try b contributor amount)
                = [Insert row, Invoke (invoke_body b contributor amount cid)])
       \<or> (\<exists>cid. \<not> truthy (snd (db_insert b row)) \<and> idres = Inr cid
            \<and> snd (functions_invoke b (invoke_body b contributor amount cid)) = None
            \<and> truthy (opt_prop (fst (functions_invoke b (invoke_body b contributor amount cid)))
                  ''payment_session_id'')
            \<and> snd (pay_try b contributor amount)
                = [Insert row, Invoke (invoke_body b contributor amount cid),
                   Checkout (Obj [(''paymentSessionId'',
                       opt_prop (fst (functions_invoke b (invoke_body b contributor amount cid)))
                         ''payment_session_id''),
                     (''paymentStyle'', Str ''redirect'')])])"
  unfolding row_def idres_def pay_try_def Let_def
  by (auto split: prod.splits sum.splits option.splits if_splits)

text \<open>The order of the actions, in terms of the row and the body the flow builds.\<close>

lemma pay_online_sequence_steps:
  fixes b contributor amount
  defines "tr \<equiv> handlePayOnline b contributor amount"
    and "row \<equiv> pending_row b contributor amount"
  shows "(Invoke body \<in> set tr \<longrightarrow>
            (\<exists>pre post cid. tr = pre @ Invoke body # post \<and> Insert row \<in> set pre
               \<and> \<not> truthy (snd (db_insert b row))
               \<and> js_bind (get_prop (fst (db_insert b row)) ''id'') (js_to_string (num_toString b))
                   = Inr cid
               \<and> body = invoke_body b contributor amount cid))
       \<and> (truthy (snd (db_insert b row)) \<longrightarrow> Invoke body \<notin> set tr)
       \<and> (Invoke body \<in> set tr
            \<and> (snd (functions_invoke b body) \<noteq> None
                \<or> \<not> truthy (opt_prop (fst (functions_invoke b body)) ''payment_session_id''))
            \<longrightarrow> Checkout arg \<notin> set tr)
       \<and> (Checkout arg \<in> set tr \<longrightarrow>
            (\<exists>pre post body'. tr = pre @ Checkout arg # post \<and> Invoke body' \<in> set pre
               \<and> opt_prop arg ''paymentSessionId''
                   = opt_prop (fst (functions_invoke b body')) ''payment_session_id''))"
proof (cases "fst (validateForm b contributor amount)")
  case False
  then have "tr = [SetError None,
                   SetError (Some ''Please enter a valid name and a positive amount.'')]"
    unfolding tr_def by (rule handlePayOnline_invalid)
  then show ?thesis by simp
next
  case True
  define P where "P = [SetError None, SetLoading True, SetError None]"
  obtain tail m where tr: "tr = P @ snd (pay_try b contributor amount) @ tail"
    and tail: "tail = [SetLoading False] \<or> tail = [SetError m, SetLoading False]"
    using handlePayOnline_valid [OF True] unfolding tr_def P_def by blast
  have ui: "\<And>x. Invoke x \<notin> set P \<and> Invoke x \<notin> set tail \<and> Checkout x \<notin> set P
              \<and> Checkout x \<notin> set tail"
    using tail by (auto simp: P_def)
  let ?idres = "js_bind (get_prop (fst (db_insert b row)) ''id'') (js_to_string (num_toString b))"
  consider
    (insert_only) "snd (pay_try b contributor amount) = [Insert row]"
  | (invoked) cid where "\<not> truthy (snd (db_insert b row))" "?idres = Inr cid"
      "snd (pay_try b contributor amount) = [Insert row, Invoke (invoke_body b contributor amount cid)]"
  | (checkout) cid where "\<not> truthy (snd (db_insert b row))" "?idres = Inr cid"
      "snd (functions_invoke b (invoke_body b contributor amount cid)) = None"
      "truthy (opt_prop (fst (functions_invoke b (invoke_body b contributor amount cid)))
                  ''payment_session_id'')"
      "snd (pay_try b contributor amount)
                = [Insert row, Invoke (invoke_body b contributor amount cid),
                   Checkout (Obj [(''paymentSessionId'',
                       opt_prop (fst (functions_invoke b (invoke_body b contributor amount cid)))
                         ''payment_session_id''),
                     (''paymentStyle'', Str ''redirect'')])]"
    using pay_try_steps [of b contributor amount] unfolding row_def by blast
  then show ?thesis
  proof cases
    case insert_only
    then have "\<And>x. Invoke x \<notin> set tr" "\<And>x. Checkout x \<notin> set tr"
      using ui unfolding tr by auto
    then show ?thesis by simp
  next
    case invoked
    let ?B = "invoke_body b contributor amount cid"
    have split: "tr = (P @ [Insert row]) @ Invoke ?B # tail"
      unfolding tr invoked(3) by simp
    have inv: "\<And>x. Invoke x \<in> set tr \<Longrightarrow> x = ?B" using ui unfolding tr invoked(3) by auto
    have noc: "\<And>x. Checkout x \<notin> set tr" using ui unfolding tr invoked(3) by auto
    have 1: "Invoke body \<in> set tr \<longrightarrow>
            (\<exists>pre post cid. tr = pre @ Invoke body # post \<and> Insert row \<in> set pre
               \<and> \<not> truthy (snd (db_insert b row)) \<and> ?idres = Inr cid
               \<and> body = invoke_body b contributor amount cid)"
    proof
      assume "Invoke body \<in> set tr"
      then have "body = ?B" by (rule inv)
      then have "tr = (P @ [Insert row]) @ Invoke body # tail \<and> Insert row \<in> set (P @ [Insert row])
               \<and> \<not> truthy (snd (db_insert b row)) \<and> ?idres = Inr cid
               \<and> body = invoke_body b contributor amount cid"
        using split invoked(1,2) by simp
      then show "\<exists>pre post cid. tr = pre @ Invoke body # post \<and> Insert row \<in> set pre
               \<and> \<not> truthy (snd (db_insert b row)) \<and> ?idres = Inr cid
               \<and> body = invoke_body b contributor amount cid" by blast
    qed
    show ?thesis using 1 invoked(1) noc by blast
  next
    case checkout
    let ?B = "invoke_body b contributor amount cid"
    let ?A = "Obj [(''paymentSessionId'', opt_prop (fst (functions_invoke b ?B)) ''payment_session_id''),
                   (''paymentStyle'', Str ''redirect'')]"
    have split1: "tr = (P @ [Insert row]) @ Invoke ?B # (Checkout ?A # tail)"
      unfolding tr checkout(5) by simp
    have split2: "tr = (P @ [Insert row, Invoke ?B]) @ Checkout ?A # tail"
      unfolding tr checkout(5) by simp
    have inv: "\<And>x. Invoke x \<in> set tr \<Longrightarrow> x = ?B" using ui unfolding tr checkout(5) by auto
    have chk: "\<And>x. Checkout x \<in> set tr \<Longrightarrow> x = ?A" using ui unfolding tr checkout(5) by auto
    have 1: "Invoke body \<in> set tr \<longrightarrow>
            (\<exists>pre post cid. tr = pre @ Invoke body # post \<and> Insert row \<in> set pre
               \<and> \<not> truthy (snd (db_insert b row)) \<and> ?idres = Inr cid
               \<and> body = invoke_body b contributor amount cid)"
    proof
      assume "Invoke body \<in> set tr"
      then have "body = ?B" by (rule inv)
      then have "tr = (P @ [Insert row]) @ Invoke body # (Checkout ?A # tail)
               \<and> Insert row \<in> set (P @ [Insert row])
               \<and> \<not> truthy (snd (db_insert b row)) \<and> ?idres = Inr cid
               \<and> body = invoke_body b contributor amount cid"
        using split1 checkout(1,2) by simp
      then show "\<exists>pre post cid. tr = pre @ Invoke body # post \<and> Insert row \<in> set pre
               \<and> \<not> truthy (snd (db_insert b row)) \<and> ?idres = Inr cid
               \<and> body = invoke_body b contributor amount cid" by blast
    qed
    have 3: "Invoke body \<in> set tr
            \<and> (snd (functions_invoke b body) \<noteq> None
                \<or> \<not> truthy (opt_prop (fst (functions_invoke b body)) ''payment_session_id''))
            \<longrightarrow> Checkout arg \<notin> set tr"
      using inv [of body] checkout(3,4) by auto
    have 4: "Checkout arg \<in> set tr \<longrightarrow>
            (\<exists>pre post body'. tr = pre @ Checkout arg # post \<and> Invoke body' \<in> set pre
               \<and> opt_prop arg ''paymentSessionId''
                   = opt_prop (fst (functions_invoke b body')) ''payment_session_id'')"
    proof
      assume "Checkout arg \<in> set tr"
      then have "arg = ?A" by (rule chk)
      then have "tr = (P @ [Insert row, Invoke ?B]) @ Checkout arg # tail
           \<and> Invoke ?B \<in> set (P @ [Insert row, Invoke ?B])
           \<and> opt_prop arg ''paymentSessionId''
                   = opt_prop (fst (functions_invoke b ?B)) ''payment_session_id''"
        using split2 by simp
      then show "\<exists>pre post body'. tr = pre @ Checkout arg # post \<and> Invoke body' \<in> set pre
               \<and> opt_prop arg ''paymentSessionId''
                   = opt_prop (fst (functions_invoke b body')) ''payment_session_id''" by blast
    qed
    show ?thesis using 1 checkout(1) 3 4 by blast
  qed
qed

text \<open>
  Claim C9: in the sequence of actions of \<^verbatim>\<open>handlePayOnline\<close>, every invocation of the order
  function comes after the insert of the row with method \<^verbatim>\<open>online\<close> and status \<^verbatim>\<open>pending\<close>,
  the insert reported no error, and the body of the invocation carries, as
  \<^verbatim>\<open>contribution_id\<close>, the text of the \<^verbatim>\<open>id\<close> of the row the insert returned. If the insert
  reports an error, the order function is not invoked. If the invocation reports an error
  or returns no session token, the checkout is not attempted; a checkout comes after an
  invocation and carries the session token that invocation returned.
\<close>

theorem pay_online_sequence:
  fixes b contributor amount
  defines "tr \<equiv> handlePayOnline b contributor amount"
    and "row \<equiv> Obj [(''contributor'', Str (trim contributor)),
                     (''amount'', Num (String_toNumber b amount)),
                     (''method'', Str ''online''),
                     (''status'', Str ''pending'')]"
  shows "(Invoke body \<in> set tr \<longrightarrow>
            (\<exists>pre post cid. tr = pre @ Invoke body # post \<and> Insert row \<in> set pre
               \<and> \<not> truthy (snd (db_insert b row))
               \<and> js_bind (get_prop (fst (db_insert b row)) ''id'') (js_to_string (num_toString b))
                   = Inr cid
               \<and> body = Obj [(''amount'', Num (String_toNumber b amount)),
                             (''contributor'', Str (trim contributor)),
                             (''contribution_id'', Str cid)]))
       \<and> (truthy (snd (db_insert b row)) \<longrightarrow> Invoke body \<notin> set tr)
       \<and> (Invoke body \<in> set tr
            \<and> (snd (functions_invoke b body) \<noteq> None
                \<or> \<not> truthy (opt_prop (fst (functions_invoke b body)) ''payment_session_id''))
            \<longrightarrow> Checkout arg \<notin> set tr)
       \<and> (Checkout arg \<in> set tr \<longrightarrow>
            (\<exists>pre post body'. tr = pre @ Checkout arg # post \<and> Invoke body' \<in> set pre
               \<and> opt_prop arg ''paymentSessionId''
                   = opt_prop (fst (functions_invoke b body')) ''payment_session_id''))"
  using pay_online_sequence_steps [of body b contributor amount arg]
  unfolding tr_def row_def pending_row_def invoke_body_def by blast

theorem pay_online_sequence_witness:
  "handlePayOnline (sample_browser (inserted_row, Null) (session_answer, None)) ''Asha'' ''500''
     = [SetError None, SetLoading True, SetError None,
        Insert (Obj [(''contributor'', Str ''Asha''), (''amount'', Num (Finite 500)),
                     (''method'', Str ''online''), (''status'', Str ''pending'')]),
        Invoke (Obj [(''amount'', Num (Finite 500)), (''contributor'', Str ''Asha''),
                     (''contribution_id'', Str ''42'')]),
        Checkout (Obj [(''paymentSessionId'', Str ''session_abc123''),
                       (''paymentStyle'', Str ''redirect'')]),
        SetLoading False]
   \<and> (\<exists>pre post.
         handlePayOnline (sample_browser (inserted_row, Null) (session_answer, None)) ''Asha'' ''500''
           = pre @ Invoke (Obj [(''amount'', Num (Finite 500)), (''contributor'', Str ''Asha''),
                                (''contribution_id'', Str ''42'')]) # post
         \<and> Insert (Obj [(''contributor'', Str ''Asha''), (''amount'', Num (Finite 500)),
                        (''method'', Str ''online''), (''status'', Str ''pending'')]) \<in> set pre)
   \<and> (\<exists>pre post body.
         handlePayOnline (sample_browser (inserted_row, Null) (session_answer, None)) ''Asha'' ''500''
           = pre @ Checkout (Obj [(''paymentSessionId'', Str ''session_abc123''),
                                  (''paymentStyle'', Str ''redirect'')]) # post
         \<and> Invoke body \<in> set pre)
   \<and> truthy (Str ''insert failed'')
   \<and> Invoke (Obj [(''amount'', Num (Finite 500)), (''contributor'', Str ''Asha''),
                  (''contribution_id'', Str ''42'')])
       \<notin> set (handlePayOnline (sample_browser (Null, Str ''insert failed'') (session_answer, None))
                ''Asha'' ''500'')
   \<and> Invoke (Obj [(''amount'', Num (Finite 500)), (''contributor'', Str ''Asha''),
                  (''contribution_id'', Str ''42'')])
       \<in> set (handlePayOnline (sample_browser (inserted_row, Null) (Null, Some gateway_failure))
                ''Asha'' ''500'')
   \<and> Checkout (Obj [(''paymentSessionId'', Str ''session_abc123''),
                    (''paymentStyle'', Str ''redirect'')])
       \<notin> set (handlePayOnline (sample_browser (inserted_row, Null) (Null, Some gateway_failure))
                ''Asha'' ''500'')"
proof -
  let ?B1 = "sample_browser (inserted_row, Null) (session_answer, None)"
  let ?B2 = "sample_browser (Null, Str ''insert failed'') (session_answer, None)"
  let ?B3 = "sample_browser (inserted_row, Null) (Null, Some gateway_failure)"
  let ?W = "Obj [(''contributor'', Str ''Asha''), (''amount'', Num (Finite 500)),
                 (''method'', Str ''online''), (''status'', Str ''pending'')]"
  let ?I = "Obj [(''amount'', Num (Finite 500)), (''contributor'', Str ''Asha''),
                 (''contribution_id'', Str ''42'')]"
  let ?C = "Obj [(''paymentSessionId'', Str ''session_abc123''), (''paymentStyle'', Str ''redirect'')]"
  have t: "trim ''Asha'' = ''Asha''" by (simp add: trim_def is_space_def)
  have 1: "handlePayOnline ?B1 ''Asha'' ''500''
     = [SetError None, SetLoading True, SetError None, Insert ?W,
        Invoke ?I, Checkout ?C, SetLoading False]"
    by (simp add: handlePayOnline_def validateForm_def pay_try_def sample_browser_def t
          pending_row_def invoke_body_def inserted_row_def session_answer_def js_bind_def)
  have 3: "handlePayOnline ?B3 ''Asha'' ''500''
     = [SetError None, SetLoading True, SetError None, Insert ?W,
        Invoke ?I, SetError (Some ''Payment gateway error: down''), SetLoading False]"
    by (simp add: handlePayOnline_def validateForm_def pay_try_def sample_browser_def t
          pending_row_def invoke_body_def inserted_row_def js_bind_def gateway_failure_def
          detailed_error_def error_message_def)
  have i1: "Invoke ?I \<in> set (handlePayOnline ?B1 ''Asha'' ''500'')" unfolding 1 by simp
  have c1: "Checkout ?C \<in> set (handlePayOnline ?B1 ''Asha'' ''500'')" unfolding 1 by simp
  have i3: "Invoke ?I \<in> set (handlePayOnline ?B3 ''Asha'' ''500'')" unfolding 3 by simp
  have s: "String_toNumber ?B1 ''500'' = Finite 500" "String_toNumber ?B2 ''500'' = Finite 500"
    "String_toNumber ?B3 ''500'' = Finite 500"
    by (simp_all add: sample_browser_def)
  have f2: "truthy (snd (db_insert ?B2 ?W))" by (simp add: sample_browser_def)
  have f3: "snd (functions_invoke ?B3 ?I) \<noteq> None" by (simp add: sample_browser_def)
  note w1 = pay_online_sequence [of ?I ?B1 "''Asha''" "''500''" ?C, unfolded t s]
  note w2 = pay_online_sequence [of ?I ?B2 "''Asha''" "''500''" ?C, unfolded t s]
  note w3 = pay_online_sequence [of ?I ?B3 "''Asha''" "''500''" ?C, unfolded t s]
  have a: "\<exists>pre post. handlePayOnline ?B1 ''Asha'' ''500'' = pre @ Invoke ?I # post
         \<and> Insert ?W \<in> set pre"
    using w1 i1 by blast
  have b: "\<exists>pre post body. handlePayOnline ?B1 ''Asha'' ''500'' = pre @ Checkout ?C # post
         \<and> Invoke body \<in> set pre"
    using w1 c1 by blast
  have c: "Invoke ?I \<notin> set (handlePayOnline ?B2 ''Asha'' ''500'')"
    using w2 f2 by blast
  have d: "Checkout ?C \<notin> set (handlePayOnline ?B3 ''Asha'' ''500'')"
    using w3 i3 f3 by blast
  have e: "truthy (Str ''insert failed'')" by simp
  show ?thesis using 1 a b c d e i3 by blast
qed

end
